theory Spec2Isabelle
  imports Main
begin

section \<open>Values of the host language\<close>

text \<open>
  Anything can be thrown. \<open>ErrorObj m\<close> is a value for which
  \<^verbatim>\<open>error instanceof Error\<close> holds, with \<^verbatim>\<open>error.message = m\<close>;
  \<open>NonError s\<close> is any other thrown value, \<open>s\<close> being \<^verbatim>\<open>String(error)\<close>.
\<close>

datatype thrown = ErrorObj string | NonError string

text \<open>\<^verbatim>\<open>error instanceof Error ? error.message : String(error)\<close>\<close>

fun error_text :: "thrown \<Rightarrow> string" where
  "error_text (ErrorObj m) = m"
| "error_text (NonError s) = s"

text \<open>
  A value of type \<^verbatim>\<open>string | undefined\<close> is a \<open>string option\<close>. It is falsy when
  it is \<^verbatim>\<open>undefined\<close> or the empty string.
\<close>

definition truthy :: "string option \<Rightarrow> bool" where
  "truthy v = (case v of None \<Rightarrow> False | Some s \<Rightarrow> s \<noteq> [])"

text \<open>\<^verbatim>\<open>v || d\<close>\<close>

definition or_else :: "string option \<Rightarrow> string \<Rightarrow> string" where
  "or_else v d = (case v of None \<Rightarrow> d | Some s \<Rightarrow> if s = [] then d else s)"

text \<open>\<^verbatim>\<open>String(v)\<close> for \<^verbatim>\<open>v: string | undefined\<close>\<close>

definition String_opt :: "string option \<Rightarrow> string" where
  "String_opt v = (case v of None \<Rightarrow> ''undefined'' | Some s \<Rightarrow> s)"

text \<open>
  An asynchronous operation returns, raises, or stays pending for ever. Only the
  inference pipeline's missing reply produces \<open>Pending\<close> in this development;
  awaited calls into the protocol client and the runtime are taken to settle.
\<close>

datatype 'a outcome = Returns 'a | Raises thrown | Pending

section \<open>Data owned by the protocol library and the agent runtime\<close>

text \<open>The members of \<^verbatim>\<open>AcpJobPhases\<close>, in the library's order.\<close>

datatype AcpJobPhases =
  REQUEST | NEGOTIATION | TRANSACTION | EVALUATION | COMPLETED | REJECTED | EXPIRED

text \<open>
  The fields of \<^verbatim>\<open>AcpJob\<close> and \<^verbatim>\<open>AcpMemo\<close> that the service reads. Numbers are
  kept abstract (\<open>'n\<close>); \<^verbatim>\<open>String\<close> and \<^verbatim>\<open>Number\<close> on them are supplied by the
  environment below.
\<close>

record 'n AcpJob =
  job_id :: 'n
  job_phase :: AcpJobPhases
  job_name :: "string option"
  job_requirement :: string
  job_clientAddress :: "string option"

record 'n AcpMemo =
  memo_id :: 'n
  nextPhase :: "AcpJobPhases option"
  memo_type :: nat
  memo_content :: string

text \<open>The \<^verbatim>\<open>text\<close> field of a \<^verbatim>\<open>Content\<close>: the only one the reply callback reads.\<close>

record Content =
  content_text :: "string option"

text \<open>\<^verbatim>\<open>{ type: "text", value: content.text }\<close>\<close>

record Deliverable =
  d_type :: string
  d_value :: string

text \<open>The object that \<^verbatim>\<open>JSON.stringify\<close> turns into the message text.\<close>

record jobContent =
  jc_jobId :: string
  jc_jobName :: string
  jc_requirement :: string
  jc_clientAddress :: "string option"

section \<open>Types of the plugin (types.ts)\<close>

text \<open>
  \<^verbatim>\<open>JobTypeConfig\<close>. The declared type of \<^verbatim>\<open>handlerType\<close> is the union
  \<^verbatim>\<open>"eliza" | "predetermined"\<close>, but \<^verbatim>\<open>updateJobTypeRegistry\<close> accepts
  \<^verbatim>\<open>Record<string, any>\<close>, so at run time it is any string. A handler is a
  function value; the registry holds a reference to it (a number), and the
  environment says what running it does.
\<close>

record JobTypeConfig =
  handlerType :: string
  handler :: "nat option"

type_synonym registry = "string \<Rightarrow> JobTypeConfig option"

text \<open>\<^verbatim>\<open>Partial<AcpServiceConfig>\<close>: the one field may be missing.\<close>

record AcpServiceConfig_partial =
  cfg_jobTypeRegistry :: "registry option"

section \<open>Effects\<close>

text \<open>
  Every call that leaves the service: the forwarding queries on the protocol client,
  the four methods of a job (named by the job's id), the construction of the client,
  and the calls into the agent runtime.
\<close>

datatype 'n call =
    GetActiveJobs "'n option" "'n option"
  | GetCompletedJobs "'n option" "'n option"
  | GetCancelledJobs "'n option" "'n option"
  | GetPendingMemoJobs "'n option" "'n option"
  | GetJobById 'n
  | GetMemoById 'n 'n
  | GetAccountByJobId 'n
  | GetByClientAndProvider string string
  | Accept 'n string
  | CreateRequirement 'n string
  | Reject 'n string
  | Deliver 'n Deliverable
  | GetSetting string
  | CreateAcpContractClient string string string
  | NewAcpClient
  | EnsureConnection string string
  | EmitEvent jobContent
  | CreateMemory string string

text \<open>The calls that go to the protocol client or to one of its jobs.\<close>

fun protocol_call :: "'n call \<Rightarrow> bool" where
  "protocol_call (GetSetting _) = False"
| "protocol_call (CreateAcpContractClient _ _ _) = False"
| "protocol_call NewAcpClient = False"
| "protocol_call (EnsureConnection _ _) = False"
| "protocol_call (EmitEvent _) = False"
| "protocol_call (CreateMemory _ _) = False"
| "protocol_call _ = True"

datatype level = Log_log | Log_info | Log_warn | Log_error | Log_success

text \<open>
  What an observer sees, in order: a call, a log line (its level, the fixed ASCII part
  of its text, and the caught value when one is passed to the logger), a
  \<^verbatim>\<open>setTimeout\<close> wait in milliseconds, and the invocation of a handler function.
\<close>

datatype 'n event =
    Call "'n call"
  | Log level string "thrown option"
  | Sleep nat
  | Invoke nat

text \<open>The state of one service instance, with the history of what it did.\<close>

record 'n world =
  trace :: "'n event list"
  jobTypeRegistry :: registry

text \<open>
  The environment: the two conversions of the language, and how the outside answers.
  Each answer may depend on everything that happened before (the trace).
  \<open>respond\<close> settles a call; \<open>getSetting\<close> is \<^verbatim>\<open>runtime.getSetting\<close>;
  \<open>reply\<close> is the content the pipeline passes to the reply callback, if it ever
  invokes it (it does so at most once); \<open>run_handler\<close> runs a handler function,
  which is taken to settle: whether it raised, what it did, and the registry it left.
\<close>

record ('n, 'r) env =
  js_String :: "'n \<Rightarrow> string"
  js_Number :: "string \<Rightarrow> 'n"
  respond :: "'n event list \<Rightarrow> 'n call \<Rightarrow> thrown + 'r"
  getSetting :: "'n event list \<Rightarrow> string \<Rightarrow> string option"
  reply :: "'n event list \<Rightarrow> Content option"
  run_handler :: "nat \<Rightarrow> 'n AcpJob \<Rightarrow> 'n AcpMemo option \<Rightarrow> 'n world
                    \<Rightarrow> thrown option \<times> 'n event list \<times> registry"

definition emit :: "'n event \<Rightarrow> 'n world \<Rightarrow> 'n world" where
  "emit e w = w\<lparr>trace := trace w @ [e]\<rparr>"

definition log :: "level \<Rightarrow> string \<Rightarrow> thrown option \<Rightarrow> 'n world \<Rightarrow> 'n world" where
  "log lv msg err w = emit (Log lv msg err) w"

text \<open>An awaited call: it is recorded, and the environment settles it.\<close>

definition call :: "('n, 'r) env \<Rightarrow> 'n call \<Rightarrow> 'n world \<Rightarrow> 'r outcome \<times> 'n world" where
  "call env c w =
     (case respond env (trace w) c of
        Inl e \<Rightarrow> (Raises e, emit (Call c) w)
      | Inr v \<Rightarrow> (Returns v, emit (Call c) w))"

text \<open>What happened between two states of the world.\<close>

definition events_since :: "'n world \<Rightarrow> 'n world \<Rightarrow> 'n event list" where
  "events_since w w' = drop (length (trace w)) (trace w')"

definition calls_of :: "'n event list \<Rightarrow> 'n call list" where
  "calls_of es = concat (map (\<lambda>e. case e of Call c \<Rightarrow> [c] | _ \<Rightarrow> []) es)"

definition protocol_calls :: "'n event list \<Rightarrow> 'n call list" where
  "protocol_calls es = filter protocol_call (calls_of es)"

section \<open>The registry (helper.ts, service.ts)\<close>

definition createDefaultJobTypeRegistry :: registry where
  "createDefaultJobTypeRegistry = Map.empty"

text \<open>
  The constructor: \<^verbatim>\<open>{ ...createDefaultJobTypeRegistry(), ...(config?.jobTypeRegistry || {}) }\<close>.
  Object spread copies the keys of the right operand over those of the left.
\<close>

definition AcpService_constructor ::
  "AcpServiceConfig_partial option \<Rightarrow> 'n world \<Rightarrow> 'n world" where
  "AcpService_constructor config w =
     w\<lparr>jobTypeRegistry :=
         createDefaultJobTypeRegistry ++
         (case config of
            None \<Rightarrow> Map.empty
          | Some c \<Rightarrow> (case cfg_jobTypeRegistry c of None \<Rightarrow> Map.empty | Some r \<Rightarrow> r))\<rparr>"

definition updateJobTypeRegistry :: "registry \<Rightarrow> 'n world \<Rightarrow> 'n world" where
  "updateJobTypeRegistry registry w =
     log Log_info ''Job type registry updated'' None
       (w\<lparr>jobTypeRegistry := jobTypeRegistry w ++ registry\<rparr>)"

section \<open>Control flow\<close>

text \<open>\<^verbatim>\<open>const x = await m; ...\<close>: the rest runs only when \<open>m\<close> returns.\<close>

definition await_then ::
  "('n world \<Rightarrow> 'a outcome \<times> 'n world) \<Rightarrow> ('a \<Rightarrow> 'n world \<Rightarrow> 'b outcome \<times> 'n world)
     \<Rightarrow> 'n world \<Rightarrow> 'b outcome \<times> 'n world" where
  "await_then m f w =
     (case m w of
        (Returns x, w') \<Rightarrow> f x w'
      | (Raises e, w') \<Rightarrow> (Raises e, w')
      | (Pending, w') \<Rightarrow> (Pending, w'))"

text \<open>\<^verbatim>\<open>try { return await body } catch (error) { logger.error(msg, error); throw error; }\<close>\<close>

definition rethrow_logged ::
  "string \<Rightarrow> ('n world \<Rightarrow> 'a outcome \<times> 'n world) \<Rightarrow> 'n world \<Rightarrow> 'a outcome \<times> 'n world" where
  "rethrow_logged msg body w =
     (case body w of
        (Raises error, w') \<Rightarrow> (Raises error, log Log_error msg (Some error) w')
      | (r, w') \<Rightarrow> (r, w'))"

text \<open>\<^verbatim>\<open>try { body } catch (error) { logger.error(msg, error); }\<close>\<close>

definition catch_logged ::
  "string \<Rightarrow> ('n world \<Rightarrow> unit outcome \<times> 'n world) \<Rightarrow> 'n world \<Rightarrow> unit outcome \<times> 'n world" where
  "catch_logged msg body w =
     (case body w of
        (Raises error, w') \<Rightarrow> (Returns (), log Log_error msg (Some error) w')
      | (r, w') \<Rightarrow> (r, w'))"

section \<open>Forwarding operations (service.ts)\<close>

text \<open>
  In a log text, each interpolated value and each non-ASCII character of the source's
  message is left out; the caught value passed to the logger is kept.
\<close>

definition getActiveJobs ::
  "('n, 'r) env \<Rightarrow> 'n option \<Rightarrow> 'n option \<Rightarrow> 'n world \<Rightarrow> 'r outcome \<times> 'n world" where
  "getActiveJobs env page pageSize =
     rethrow_logged ''Error getting active jobs:'' (call env (GetActiveJobs page pageSize))"

definition getCompletedJobs ::
  "('n, 'r) env \<Rightarrow> 'n option \<Rightarrow> 'n option \<Rightarrow> 'n world \<Rightarrow> 'r outcome \<times> 'n world" where
  "getCompletedJobs env page pageSize =
     rethrow_logged ''Error getting completed jobs:'' (call env (GetCompletedJobs page pageSize))"

definition getCancelledJobs ::
  "('n, 'r) env \<Rightarrow> 'n option \<Rightarrow> 'n option \<Rightarrow> 'n world \<Rightarrow> 'r outcome \<times> 'n world" where
  "getCancelledJobs env page pageSize =
     rethrow_logged ''Error getting cancelled jobs:'' (call env (GetCancelledJobs page pageSize))"

definition getPendingMemoJobs ::
  "('n, 'r) env \<Rightarrow> 'n option \<Rightarrow> 'n option \<Rightarrow> 'n world \<Rightarrow> 'r outcome \<times> 'n world" where
  "getPendingMemoJobs env page pageSize =
     rethrow_logged ''Error getting pending memo jobs:''
       (call env (GetPendingMemoJobs page pageSize))"

definition getJobById ::
  "('n, 'r) env \<Rightarrow> string \<Rightarrow> 'n world \<Rightarrow> 'r outcome \<times> 'n world" where
  "getJobById env jobId =
     rethrow_logged ''Error getting job by ID:'' (call env (GetJobById (js_Number env jobId)))"

definition getMemoById ::
  "('n, 'r) env \<Rightarrow> string \<Rightarrow> string \<Rightarrow> 'n world \<Rightarrow> 'r outcome \<times> 'n world" where
  "getMemoById env jobId memoId =
     rethrow_logged ''Error getting memo by ID:''
       (call env (GetMemoById (js_Number env jobId) (js_Number env memoId)))"

definition getAccountByJobId ::
  "('n, 'r) env \<Rightarrow> string \<Rightarrow> 'n world \<Rightarrow> 'r outcome \<times> 'n world" where
  "getAccountByJobId env jobId =
     rethrow_logged ''Error getting account by job ID:''
       (call env (GetAccountByJobId (js_Number env jobId)))"

definition getByClientAndProvider ::
  "('n, 'r) env \<Rightarrow> string \<Rightarrow> string \<Rightarrow> 'n world \<Rightarrow> 'r outcome \<times> 'n world" where
  "getByClientAndProvider env clientAddress providerAddress =
     rethrow_logged ''Error getting account by addresses:''
       (call env (GetByClientAndProvider clientAddress providerAddress))"

section \<open>The AI delegation path (service.ts)\<close>

text \<open>\<^verbatim>\<open>checkElizaCapability\<close>: for now, every job is accepted.\<close>

definition checkElizaCapability :: "'n AcpJob \<Rightarrow> bool" where
  "checkElizaCapability job = True"

text \<open>
  The reply callback, run on the content the pipeline passes to it. Its result is the
  value the promise is resolved with: \<open>None\<close> for \<^verbatim>\<open>null\<close>.
\<close>

definition callback ::
  "('n, 'r) env \<Rightarrow> string \<Rightarrow> Content \<Rightarrow> 'n world \<Rightarrow> Deliverable option \<times> 'n world" where
  "callback env jobIdStr content w =
     (case content_text content of
        None \<Rightarrow> (None, w)
      | Some txt \<Rightarrow>
          if txt = [] then (None, w)
          else
            (let deliverable = \<lparr>d_type = ''text'', d_value = txt\<rparr> in
             case call env (CreateMemory jobIdStr txt) w of
               (Raises error, w') \<Rightarrow>
                 (None, log Log_error ''Error in Eliza callback'' (Some error) w')
             | (_, w') \<Rightarrow> (Some deliverable, w')))"

text \<open>
  \<^verbatim>\<open>processJobWithElizaAI\<close>. The promise it returns is resolved only by the callback:
  when the pipeline never invokes the callback, the result is \<open>Pending\<close>. A failure of
  \<^verbatim>\<open>ensureConnection\<close>, or one thrown by \<^verbatim>\<open>emitEvent\<close> inside the promise's
  executor, rejects it.
\<close>

definition processJobWithElizaAI ::
  "('n, 'r) env \<Rightarrow> 'n AcpJob \<Rightarrow> 'n AcpMemo option \<Rightarrow> 'n world
     \<Rightarrow> Deliverable option outcome \<times> 'n world" where
  "processJobWithElizaAI env job memoToSign w =
     (let jobIdStr = js_String env (job_id job);
          jobContent = \<lparr>jc_jobId = jobIdStr, jc_jobName = String_opt (job_name job),
                        jc_requirement = job_requirement job,
                        jc_clientAddress = job_clientAddress job\<rparr>
      in case call env (EnsureConnection (or_else (job_clientAddress job) jobIdStr) jobIdStr) w of
           (Raises e, w1) \<Rightarrow> (Raises e, w1)
         | (Pending, w1) \<Rightarrow> (Pending, w1)
         | (Returns _, w1) \<Rightarrow>
             (case call env (EmitEvent jobContent) w1 of
                (Raises e, w2) \<Rightarrow> (Raises e, w2)
              | (_, w2) \<Rightarrow>
                  (case reply env (trace w2) of
                     None \<Rightarrow> (Pending, w2)
                   | Some content \<Rightarrow>
                       (case callback env jobIdStr content w2 of
                          (d, w3) \<Rightarrow> (Returns d, w3)))))"

text \<open>
  \<^verbatim>\<open>processJobWithEliza\<close>, with the capability check as a parameter; the service
  uses \<open>checkElizaCapability\<close>.
\<close>

definition processJobWithEliza_with ::
  "('n AcpJob \<Rightarrow> bool) \<Rightarrow> ('n, 'r) env \<Rightarrow> 'n AcpJob \<Rightarrow> 'n AcpMemo option \<Rightarrow> 'n world
     \<Rightarrow> unit outcome \<times> 'n world" where
  "processJobWithEliza_with check env job memoToSign =
     catch_logged ''Error in processJobWithEliza''
       (\<lambda>w.
          let jobId = job_id job; jobPhase = job_phase job;
              jobIdStr = js_String env jobId;
              next = (case memoToSign of None \<Rightarrow> None | Some m \<Rightarrow> nextPhase m)
          in
          if jobPhase = REQUEST \<and> next = Some NEGOTIATION then
            (let w0 = log Log_info
                        ''[Eliza ACP] REQUEST phase for job , routing to Eliza for capability check''
                        None w
             in if check job then
                  await_then (call env (Accept jobId ''Job requirement matches agent capability''))
                    (\<lambda>_. await_then
                       (call env (CreateRequirement jobId
                          (''Job '' @ jobIdStr @ '' accepted, please make payment to proceed'')))
                       (\<lambda>_ w'. (Returns (),
                          log Log_success ''[Eliza ACP] Job  accepted and requirement created''
                            None w')))
                    w0
                else
                  await_then
                    (call env (Reject jobId ''Job requirement does not meet agent capability''))
                    (\<lambda>_ w'. (Returns (),
                       log Log_warn ''[Eliza ACP] Job  rejected by capability check'' None w'))
                    w0)
          else if jobPhase = TRANSACTION \<and> next = Some EVALUATION then
            (let w0 = log Log_info
                        ''[Eliza ACP] TRANSACTION phase for job , processing with Eliza'' None w
             in await_then (processJobWithElizaAI env job memoToSign)
                  (\<lambda>deliverable.
                     case deliverable of
                       Some d \<Rightarrow>
                         await_then (call env (Deliver jobId d))
                           (\<lambda>_ w'. (Returns (),
                              log Log_success ''[Eliza ACP] Job  delivered'' None w'))
                     | None \<Rightarrow>
                         await_then (call env (Reject jobId ''Unable to process job requirement''))
                           (\<lambda>_ w'. (Returns (),
                              log Log_error ''[Eliza ACP] Job  rejected - no deliverable''
                                None w')))
                  w0)
          else
            (Returns (),
             log Log_warn
               ''[Eliza ACP] Unhandled phase combination for job : phase=, nextPhase='' None w))"

definition processJobWithEliza ::
  "('n, 'r) env \<Rightarrow> 'n AcpJob \<Rightarrow> 'n AcpMemo option \<Rightarrow> 'n world \<Rightarrow> unit outcome \<times> 'n world" where
  "processJobWithEliza = processJobWithEliza_with checkElizaCapability"

section \<open>The job router (service.ts)\<close>

text \<open>
  \<^verbatim>\<open>await jobTypeConfig.handler(job, this, memoToSign)\<close>: the invocation is recorded,
  then what the handler did; the handler may have replaced the registry through the
  service it is given.
\<close>

definition invoke ::
  "('n, 'r) env \<Rightarrow> nat \<Rightarrow> 'n AcpJob \<Rightarrow> 'n AcpMemo option \<Rightarrow> 'n world
     \<Rightarrow> unit outcome \<times> 'n world" where
  "invoke env h job memoToSign w =
     (case run_handler env h job memoToSign w of
        (raised, es, reg) \<Rightarrow>
          ((case raised of None \<Rightarrow> Returns () | Some e \<Rightarrow> Raises e),
           w\<lparr>trace := trace w @ Invoke h # es, jobTypeRegistry := reg\<rparr>))"

text \<open>The debug line written on entry.\<close>

definition onNewTask_debug :: string where
  "onNewTask_debug =
     '' [SERVICE DEBUG] onNewTask called - jobId: , phase: , jobName: , memoId: , nextPhase: , memoType: , content: ''"

text \<open>
  The registry is a plain object, built afresh by an object literal each time it is
  set, so reading a key that is not its own falls through to \<^verbatim>\<open>Object.prototype\<close>.
  These are the property names found there (the standard ones and the legacy ones of
  the language's Annex B). Each of them holds a function, or for \<^verbatim>\<open>__proto__\<close> the
  prototype object itself: a truthy value that has no \<^verbatim>\<open>handlerType\<close> and no
  \<^verbatim>\<open>handler\<close>.
\<close>

definition Object_prototype_keys :: "string list" where
  "Object_prototype_keys =
     [''constructor'', ''__proto__'', ''hasOwnProperty'', ''isPrototypeOf'',
      ''propertyIsEnumerable'', ''toLocaleString'', ''toString'', ''valueOf'',
      ''__defineGetter__'', ''__defineSetter__'', ''__lookupGetter__'', ''__lookupSetter__'']"

text \<open>
  What \<^verbatim>\<open>jobName ? this.jobConfig.jobTypeRegistry[jobName] : null\<close> evaluates to:
  nothing (\<^verbatim>\<open>null\<close> or \<^verbatim>\<open>undefined\<close>), an entry of the registry, or a property
  inherited from \<^verbatim>\<open>Object.prototype\<close>.
\<close>

datatype looked_up = Nothing | OwnEntry JobTypeConfig | InheritedProperty

text \<open>
  A missing or empty name gives \<^verbatim>\<open>null\<close>. Otherwise the registry's own key wins;
  a name that is not an own key is looked for among the inherited ones.
\<close>

definition jobTypeConfig_of :: "'n world \<Rightarrow> 'n AcpJob \<Rightarrow> looked_up" where
  "jobTypeConfig_of w job =
     (case job_name job of
        None \<Rightarrow> Nothing
      | Some n \<Rightarrow>
          if n = [] then Nothing
          else
            (case jobTypeRegistry w n of
               Some cfg \<Rightarrow> OwnEntry cfg
             | None \<Rightarrow> if n \<in> set Object_prototype_keys then InheritedProperty else Nothing))"

text \<open>
  \<^verbatim>\<open>handleNewTask\<close>. An inherited property passes the \<^verbatim>\<open>!jobTypeConfig\<close> test,
  and its \<^verbatim>\<open>handlerType\<close> is \<^verbatim>\<open>undefined\<close>, which equals neither of the two
  strings: no branch of the dispatch is taken.
\<close>

definition handleNewTask ::
  "('n, 'r) env \<Rightarrow> 'n AcpJob \<Rightarrow> 'n AcpMemo option \<Rightarrow> 'n world \<Rightarrow> unit outcome \<times> 'n world" where
  "handleNewTask env job memoToSign w =
     (let jobId = job_id job;
          w0 = log Log_info onNewTask_debug None w
      in case getAccountByJobId env (js_String env jobId) w0 of
           (Raises e, w1) \<Rightarrow> (Raises e, w1)
         | (Pending, w1) \<Rightarrow> (Pending, w1)
         | (Returns account, w1) \<Rightarrow>
             (let w2 = log Log_info ''[DCA DEBUG] job Account: '' None w1;
                  jobTypeConfig = jobTypeConfig_of w2 job
              in case jobTypeConfig of
                   Nothing \<Rightarrow>
                     (Returns (),
                      log Log_warn ''[handleNewTask] No configuration found for job type: ''
                        None w2)
                 | InheritedProperty \<Rightarrow> (Returns (), w2)
                 | OwnEntry cfg \<Rightarrow>
                     if handlerType cfg = ''predetermined'' then
                       (case handler cfg of
                          Some h \<Rightarrow>
                            catch_logged ''[handleNewTask] Error in predetermined handler for :''
                              (invoke env h job memoToSign) w2
                        | None \<Rightarrow>
                            (Returns (),
                             log Log_warn
                               ''[handleNewTask] No handler function provided for predetermined job type: ''
                               None w2))
                     else if handlerType cfg = ''eliza'' then
                       processJobWithEliza env job memoToSign w2
                     else (Returns (), w2)))"

section \<open>The connection bootstrapper (service.ts)\<close>

definition ACP_SERVICE_NAME :: string where
  "ACP_SERVICE_NAME = ''virtuals-acp''"

definition string_of :: "string option \<Rightarrow> string" where
  "string_of v = (case v of None \<Rightarrow> [] | Some s \<Rightarrow> s)"

text \<open>
  \<^verbatim>\<open>setupClient\<close>: read the three settings, fail on the first that is missing,
  build the contract client, construct the protocol client.
\<close>

definition setupClient :: "('n, 'r) env \<Rightarrow> 'n world \<Rightarrow> unit outcome \<times> 'n world" where
  "setupClient env w =
     (let privateKey = getSetting env (trace w) ''ACP_WALLET_PRIVATE_KEY'';
          w1 = emit (Call (GetSetting ''ACP_WALLET_PRIVATE_KEY'')) w;
          entityId = getSetting env (trace w1) ''ACP_ENTITY_ID'';
          w2 = emit (Call (GetSetting ''ACP_ENTITY_ID'')) w1;
          agentAddress = getSetting env (trace w2) ''ACP_AGENT_WALLET_ADDRESS'';
          w3 = emit (Call (GetSetting ''ACP_AGENT_WALLET_ADDRESS'')) w2
      in if \<not> truthy privateKey then
           (Raises (ErrorObj ''ACP_WALLET_PRIVATE_KEY is required''), w3)
         else if \<not> truthy entityId then
           (Raises (ErrorObj ''ACP_ENTITY_ID is required''), w3)
         else if \<not> truthy agentAddress then
           (Raises (ErrorObj ''ACP_AGENT_WALLET_ADDRESS is required''), w3)
         else
           await_then
             (call env (CreateAcpContractClient (string_of privateKey) (string_of entityId)
                          (string_of agentAddress)))
             (\<lambda>_. await_then (call env NewAcpClient)
                (\<lambda>_ w'. (Returns (), log Log_success ''ACP client created successfully'' None w')))
             w3)"

text \<open>
  The loop of \<^verbatim>\<open>setupClientWithRetry\<close>, from its counter \<open>i\<close>. The wait is
  \<^verbatim>\<open>Math.pow(2, i) * 1000\<close> milliseconds.
\<close>

function setupClientWithRetry_from ::
  "('n, 'r) env \<Rightarrow> nat \<Rightarrow> nat \<Rightarrow> 'n world \<Rightarrow> unit outcome \<times> 'n world" where
  "setupClientWithRetry_from env maxRetries i w =
     (if i < maxRetries then
        (case setupClient env w of
           (Returns _, w1) \<Rightarrow>
             (Returns (), log Log_info ''ACP client connected successfully'' None w1)
         | (Pending, w1) \<Rightarrow> (Pending, w1)
         | (Raises error, w1) \<Rightarrow>
             (let w2 = log Log_error ''ACP client connection attempt  failed:'' (Some error) w1
              in if int i < int maxRetries - 1 then
                   (let delay = 2 ^ i * 1000;
                        w3 = log Log_info ''Retrying in ms...'' None w2
                    in setupClientWithRetry_from env maxRetries (i + 1) (emit (Sleep delay) w3))
                 else (Raises error, w2)))
      else (Returns (), w))"
  by pat_completeness auto
termination
  by (relation "measure (\<lambda>(env, maxRetries, i, w). maxRetries - i)") auto

definition setupClientWithRetry ::
  "('n, 'r) env \<Rightarrow> nat \<Rightarrow> 'n world \<Rightarrow> unit outcome \<times> 'n world" where
  "setupClientWithRetry env maxRetries = setupClientWithRetry_from env maxRetries 0"

text \<open>
  \<^verbatim>\<open>AcpService.start\<close>: construct the service, connect with the default of three
  attempts, and wrap a failure in a new \<^verbatim>\<open>Error\<close>.
\<close>

definition start ::
  "('n, 'r) env \<Rightarrow> AcpServiceConfig_partial option \<Rightarrow> 'n world \<Rightarrow> unit outcome \<times> 'n world" where
  "start env config w =
     (let w0 = log Log_log ''Constructing new AcpService...'' None w;
          service = AcpService_constructor config w0
      in case setupClientWithRetry env 3 service of
           (Returns _, w1) \<Rightarrow>
             (Returns (), log Log_success '' ACP service started successfully'' None w1)
         | (Pending, w1) \<Rightarrow> (Pending, w1)
         | (Raises error, w1) \<Rightarrow>
             (Raises (ErrorObj (''Failed to register service '' @ ACP_SERVICE_NAME @ '': ''
                                @ error_text error)),
              log Log_error ''Failed to start ACP service:'' (Some error) w1))"

section \<open>Observations and sample inputs used in the statements\<close>

text \<open>The account lookup that the router makes for a job, and how it is settled.\<close>

definition account_call :: "('n, 'r) env \<Rightarrow> 'n AcpJob \<Rightarrow> 'n call" where
  "account_call env job = GetAccountByJobId (js_Number env (js_String env (job_id job)))"

definition account_lookup :: "('n, 'r) env \<Rightarrow> 'n AcpJob \<Rightarrow> 'n world \<Rightarrow> thrown + 'r" where
  "account_lookup env job w =
     respond env (trace w @ [Log Log_info onNewTask_debug None]) (account_call env job)"

text \<open>What the router does for every job before it looks at the registry.\<close>

definition prelude :: "('n, 'r) env \<Rightarrow> 'n AcpJob \<Rightarrow> 'n event list" where
  "prelude env job =
     [Log Log_info onNewTask_debug None, Call (account_call env job),
      Log Log_info ''[DCA DEBUG] job Account: '' None]"

text \<open>What the router has done when the account lookup fails.\<close>

definition prelude_failed :: "('n, 'r) env \<Rightarrow> 'n AcpJob \<Rightarrow> thrown \<Rightarrow> 'n event list" where
  "prelude_failed env job e =
     [Log Log_info onNewTask_debug None, Call (account_call env job),
      Log Log_error ''Error getting account by job ID:'' (Some e)]"

text \<open>The job is named after a property that every object inherits.\<close>

definition inherited_name :: "'n AcpJob \<Rightarrow> bool" where
  "inherited_name job =
     (case job_name job of None \<Rightarrow> False | Some n \<Rightarrow> n \<in> set Object_prototype_keys)"

text \<open>The two phase transitions that the AI delegation path recognises.\<close>

definition on_request :: "'n AcpJob \<Rightarrow> 'n AcpMemo option \<Rightarrow> bool" where
  "on_request job memoToSign =
     (job_phase job = REQUEST \<and>
      (case memoToSign of None \<Rightarrow> False | Some m \<Rightarrow> nextPhase m = Some NEGOTIATION))"

definition on_transaction :: "'n AcpJob \<Rightarrow> 'n AcpMemo option \<Rightarrow> bool" where
  "on_transaction job memoToSign =
     (job_phase job = TRANSACTION \<and>
      (case memoToSign of None \<Rightarrow> False | Some m \<Rightarrow> nextPhase m = Some EVALUATION))"

text \<open>The calls of the AI delegation path for a job, and its first log line in each phase.\<close>

definition request_log :: "'n event" where
  "request_log =
     Log Log_info ''[Eliza ACP] REQUEST phase for job , routing to Eliza for capability check''
       None"

definition transaction_log :: "'n event" where
  "transaction_log =
     Log Log_info ''[Eliza ACP] TRANSACTION phase for job , processing with Eliza'' None"

definition accept_call :: "'n AcpJob \<Rightarrow> 'n call" where
  "accept_call job = Accept (job_id job) ''Job requirement matches agent capability''"

definition requirement_call :: "('n, 'r) env \<Rightarrow> 'n AcpJob \<Rightarrow> 'n call" where
  "requirement_call env job =
     CreateRequirement (job_id job)
       (''Job '' @ js_String env (job_id job) @ '' accepted, please make payment to proceed'')"

definition capability_reject :: "'n AcpJob \<Rightarrow> 'n call" where
  "capability_reject job = Reject (job_id job) ''Job requirement does not meet agent capability''"

definition no_deliverable_reject :: "'n AcpJob \<Rightarrow> 'n call" where
  "no_deliverable_reject job = Reject (job_id job) ''Unable to process job requirement''"

definition ensure_call :: "('n, 'r) env \<Rightarrow> 'n AcpJob \<Rightarrow> 'n call" where
  "ensure_call env job =
     EnsureConnection (or_else (job_clientAddress job) (js_String env (job_id job)))
       (js_String env (job_id job))"

definition emit_call :: "('n, 'r) env \<Rightarrow> 'n AcpJob \<Rightarrow> 'n call" where
  "emit_call env job =
     EmitEvent \<lparr>jc_jobId = js_String env (job_id job), jc_jobName = String_opt (job_name job),
                jc_requirement = job_requirement job,
                jc_clientAddress = job_clientAddress job\<rparr>"

definition memory_call :: "('n, 'r) env \<Rightarrow> 'n AcpJob \<Rightarrow> string \<Rightarrow> 'n call" where
  "memory_call env job txt = CreateMemory (js_String env (job_id job)) txt"

text \<open>What has happened when the message has been handed to the pipeline.\<close>

definition submitted :: "('n, 'r) env \<Rightarrow> 'n AcpJob \<Rightarrow> 'n event list" where
  "submitted env job = [transaction_log, Call (ensure_call env job), Call (emit_call env job)]"

text \<open>
  How the environment settles each step of the path, for a job that enters
  \<^verbatim>\<open>processJobWithEliza\<close> in the world \<open>w\<close>.
\<close>

definition accept_outcome :: "('n, 'r) env \<Rightarrow> 'n AcpJob \<Rightarrow> 'n world \<Rightarrow> thrown + 'r" where
  "accept_outcome env job w = respond env (trace w @ [request_log]) (accept_call job)"

definition ensure_outcome :: "('n, 'r) env \<Rightarrow> 'n AcpJob \<Rightarrow> 'n world \<Rightarrow> thrown + 'r" where
  "ensure_outcome env job w = respond env (trace w @ [transaction_log]) (ensure_call env job)"

definition emit_outcome :: "('n, 'r) env \<Rightarrow> 'n AcpJob \<Rightarrow> 'n world \<Rightarrow> thrown + 'r" where
  "emit_outcome env job w =
     respond env (trace w @ [transaction_log, Call (ensure_call env job)]) (emit_call env job)"

definition pipeline_reply :: "('n, 'r) env \<Rightarrow> 'n AcpJob \<Rightarrow> 'n world \<Rightarrow> Content option" where
  "pipeline_reply env job w = reply env (trace w @ submitted env job)"

definition memory_outcome ::
  "('n, 'r) env \<Rightarrow> 'n AcpJob \<Rightarrow> 'n world \<Rightarrow> string \<Rightarrow> thrown + 'r" where
  "memory_outcome env job w txt =
     respond env (trace w @ submitted env job) (memory_call env job txt)"

definition requirement_outcome :: "('n, 'r) env \<Rightarrow> 'n AcpJob \<Rightarrow> 'n world \<Rightarrow> thrown + 'r" where
  "requirement_outcome env job w =
     respond env (trace w @ [request_log, Call (accept_call job)]) (requirement_call env job)"

definition capability_reject_outcome ::
  "('n, 'r) env \<Rightarrow> 'n AcpJob \<Rightarrow> 'n world \<Rightarrow> thrown + 'r" where
  "capability_reject_outcome env job w =
     respond env (trace w @ [request_log]) (capability_reject job)"

text \<open>
  The protocol calls of the settlement transition, read off the way the environment
  settles its steps: none when the connection or the submission fails or the pipeline
  never replies, one reject when the reply has no text or the callback fails, one
  deliver otherwise.
\<close>

definition transaction_protocol_calls ::
  "('n, 'r) env \<Rightarrow> 'n AcpJob \<Rightarrow> 'n world \<Rightarrow> 'n call list" where
  "transaction_protocol_calls env job w =
     (case ensure_outcome env job w of
        Inl e \<Rightarrow> []
      | Inr _ \<Rightarrow>
          (case emit_outcome env job w of
             Inl e \<Rightarrow> []
           | Inr _ \<Rightarrow>
               (case pipeline_reply env job w of
                  None \<Rightarrow> []
                | Some content \<Rightarrow>
                    (case content_text content of
                       None \<Rightarrow> [no_deliverable_reject job]
                     | Some txt \<Rightarrow>
                         if txt = [] then [no_deliverable_reject job]
                         else
                           (case memory_outcome env job w txt of
                              Inl e \<Rightarrow> [no_deliverable_reject job]
                            | Inr _ \<Rightarrow>
                                [Deliver (job_id job) \<lparr>d_type = ''text'', d_value = txt\<rparr>])))))"

text \<open>
  Counting what the bootstrapper did. Every run of \<^verbatim>\<open>setupClient\<close> starts by reading
  the wallet key, once: these reads count the attempts. The waits are the
  \<^verbatim>\<open>setTimeout\<close> delays, in milliseconds. \<open>backoff i k\<close> are the delays after the
  failed attempts \<open>i\<close> to \<open>k - 1\<close>.
\<close>

definition attempts :: "'n event list \<Rightarrow> nat" where
  "attempts es = length (filter (\<lambda>e. e = Call (GetSetting ''ACP_WALLET_PRIVATE_KEY'')) es)"

definition waits :: "'n event list \<Rightarrow> nat list" where
  "waits es = concat (map (\<lambda>e. case e of Sleep ms \<Rightarrow> [ms] | _ \<Rightarrow> []) es)"

definition backoff :: "nat \<Rightarrow> nat \<Rightarrow> nat list" where
  "backoff i k = map (\<lambda>j. 2 ^ j * 1000) [i..<k]"

text \<open>
  The run of a start, attempt by attempt. \<open>service_world\<close> is the world in which
  the loop starts: the first log line is written and the service constructed.
  \<open>retry_world\<close> is what the loop does between a failed attempt \<open>i\<close> and the next
  one: the two log lines and the wait. \<open>attempt_world\<close> is the world in which
  attempt \<open>i\<close> (counted from zero) is made when the attempts before it have failed,
  and \<open>attempt_outcome\<close> is how \<open>setupClient\<close> ends there.
\<close>

definition service_world :: "AcpServiceConfig_partial option \<Rightarrow> 'n world \<Rightarrow> 'n world" where
  "service_world config w =
     AcpService_constructor config (log Log_log ''Constructing new AcpService...'' None w)"

definition retry_world :: "nat \<Rightarrow> thrown \<Rightarrow> 'n world \<Rightarrow> 'n world" where
  "retry_world i e u =
     emit (Sleep (2 ^ i * 1000))
       (log Log_info ''Retrying in ms...'' None
          (log Log_error ''ACP client connection attempt  failed:'' (Some e) u))"

fun attempt_world :: "('n, 'r) env \<Rightarrow> 'n world \<Rightarrow> nat \<Rightarrow> 'n world" where
  "attempt_world env s 0 = s"
| "attempt_world env s (Suc i) =
     (case setupClient env (attempt_world env s i) of
        (Raises e, u) \<Rightarrow> retry_world i e u
      | (_, u) \<Rightarrow> u)"

definition attempt_outcome :: "('n, 'r) env \<Rightarrow> 'n world \<Rightarrow> nat \<Rightarrow> unit outcome" where
  "attempt_outcome env s i = fst (setupClient env (attempt_world env s i))"

text \<open>
  A forwarding operation \<open>f\<close> for the call \<open>c\<close>: one call; its failure logged with
  \<open>msg\<close> and raised again as it is; its result returned as it is.
\<close>

definition forwards ::
  "('n, 'r) env \<Rightarrow> 'n call \<Rightarrow> string \<Rightarrow> ('n world \<Rightarrow> 'r outcome \<times> 'n world)
     \<Rightarrow> 'n world \<Rightarrow> bool" where
  "forwards env c msg f w =
     (case respond env (trace w) c of
        Inl e \<Rightarrow>
          f w = (Raises e, w\<lparr>trace := trace w @ [Call c, Log Log_error msg (Some e)]\<rparr>)
      | Inr v \<Rightarrow> f w = (Returns v, w\<lparr>trace := trace w @ [Call c]\<rparr>))"

text \<open>
  A sample environment over natural numbers: every call returns, the settings are
  present, the pipeline replies with a text, handlers return without doing anything.
  The two conversions are given for the one job id the samples use.
\<close>

definition sample_env :: "(nat, string) env" where
  "sample_env =
     \<lparr>js_String = (\<lambda>n. if n = 7 then ''7'' else ''0''),
      js_Number = (\<lambda>s. if s = ''7'' then 7 else 0),
      respond = (\<lambda>tr c. Inr ''ok''),
      getSetting = (\<lambda>tr k. Some ''0xabc''),
      reply = (\<lambda>tr. Some \<lparr>content_text = Some ''the answer''\<rparr>),
      run_handler = (\<lambda>h job memo w. (None, [], jobTypeRegistry w))\<rparr>"

definition sample_world :: "nat world" where
  "sample_world =
     \<lparr>trace = [],
      jobTypeRegistry =
        [''swap'' \<mapsto> \<lparr>handlerType = ''predetermined'', handler = Some 1\<rparr>,
         ''chat'' \<mapsto> \<lparr>handlerType = ''eliza'', handler = None\<rparr>,
         ''odd'' \<mapsto> \<lparr>handlerType = ''manual'', handler = None\<rparr>]\<rparr>"

definition sample_job :: "string \<Rightarrow> AcpJobPhases \<Rightarrow> nat AcpJob" where
  "sample_job n ph =
     \<lparr>job_id = 7, job_phase = ph, job_name = Some n, job_requirement = ''what is ACP?'',
      job_clientAddress = Some ''0xc1''\<rparr>"

definition sample_memo :: "AcpJobPhases \<Rightarrow> nat AcpMemo" where
  "sample_memo ph = \<lparr>memo_id = 3, nextPhase = Some ph, memo_type = 0, memo_content = []\<rparr>"

text \<open>Variations of the sample environment in which one step fails.\<close>

definition lookup_fails :: "(nat, string) env" where
  "lookup_fails = sample_env\<lparr>respond := \<lambda>tr c. Inl (ErrorObj ''rpc unreachable'')\<rparr>"

definition handler_fails :: "(nat, string) env" where
  "handler_fails =
     sample_env\<lparr>run_handler :=
       \<lambda>h job memo w. (Some (ErrorObj ''handler broke''), [], jobTypeRegistry w)\<rparr>"

definition accept_fails :: "(nat, string) env" where
  "accept_fails =
     sample_env\<lparr>respond := \<lambda>tr c. case c of
        Accept _ _ \<Rightarrow> Inl (ErrorObj ''accept failed'') | _ \<Rightarrow> Inr ''ok''\<rparr>"

definition connection_fails :: "(nat, string) env" where
  "connection_fails =
     sample_env\<lparr>respond := \<lambda>tr c. case c of
        EnsureConnection _ _ \<Rightarrow> Inl (ErrorObj ''connection refused'') | _ \<Rightarrow> Inr ''ok''\<rparr>"

definition memory_fails :: "(nat, string) env" where
  "memory_fails =
     sample_env\<lparr>respond := \<lambda>tr c. case c of
        CreateMemory _ _ \<Rightarrow> Inl (ErrorObj ''database is down'') | _ \<Rightarrow> Inr ''ok''\<rparr>"

definition no_settings :: "(nat, string) env" where
  "no_settings = sample_env\<lparr>getSetting := \<lambda>tr k. None\<rparr>"

text \<open>The settings appear only after the first attempt has been made.\<close>

definition settings_late :: "(nat, string) env" where
  "settings_late =
     sample_env\<lparr>getSetting := \<lambda>tr k. if length tr < 5 then None else Some ''0xabc''\<rparr>"

text \<open>
  The settings appear only when thirty things have happened: too late for the three
  attempts of a start, though \<open>setupClient\<close> succeeds afterwards.
\<close>

definition settings_too_late :: "(nat, string) env" where
  "settings_too_late =
     sample_env\<lparr>getSetting := \<lambda>tr k. if length tr < 30 then None else Some ''0xabc''\<rparr>"

section \<open>Basic facts about the trace\<close>

declare setupClientWithRetry_from.simps [simp del]

lemma trace_emit [simp]: "trace (emit e w) = trace w @ [e]"
  by (simp add: emit_def)

lemma registry_emit [simp]: "jobTypeRegistry (emit e w) = jobTypeRegistry w"
  by (simp add: emit_def)

lemma trace_log [simp]: "trace (log lv m x w) = trace w @ [Log lv m x]"
  by (simp add: log_def)

lemma registry_log [simp]: "jobTypeRegistry (log lv m x w) = jobTypeRegistry w"
  by (simp add: log_def)

lemma events_since_append [simp]:
  "events_since w (w'\<lparr>trace := trace w @ es\<rparr>) = es"
  by (simp add: events_since_def)

lemma events_since_trace: "trace w' = trace w @ es \<Longrightarrow> events_since w w' = es"
  by (simp add: events_since_def)

lemma protocol_calls_Nil [simp]: "protocol_calls [] = []"
  by (simp add: protocol_calls_def calls_of_def)

lemma protocol_calls_append [simp]:
  "protocol_calls (es @ fs) = protocol_calls es @ protocol_calls fs"
  by (simp add: protocol_calls_def calls_of_def)

lemma protocol_calls_Log [simp]: "protocol_calls (Log lv m x # es) = protocol_calls es"
  by (simp add: protocol_calls_def calls_of_def)

lemma protocol_calls_Invoke [simp]: "protocol_calls (Invoke h # es) = protocol_calls es"
  by (simp add: protocol_calls_def calls_of_def)

lemma protocol_calls_Call [simp]:
  "protocol_calls (Call c # es)
     = (if protocol_call c then c # protocol_calls es else protocol_calls es)"
  by (simp add: protocol_calls_def calls_of_def)

lemma protocol_calls_phase_log [simp]:
  "protocol_calls (transaction_log # es) = protocol_calls es"
  "protocol_calls (request_log # es) = protocol_calls es"
  by (simp_all add: transaction_log_def request_log_def)

lemma protocol_calls_prelude [simp]: "protocol_calls (prelude env job) = [account_call env job]"
  by (simp add: prelude_def account_call_def)

lemma protocol_calls_prelude_failed [simp]:
  "protocol_calls (prelude_failed env job e) = [account_call env job]"
  by (simp add: prelude_failed_def account_call_def)

lemma protocol_call_path [simp]:
  "protocol_call (accept_call job)" "protocol_call (requirement_call env job)"
  "protocol_call (capability_reject job)" "protocol_call (no_deliverable_reject job)"
  by (simp_all add: accept_call_def requirement_call_def capability_reject_def
      no_deliverable_reject_def)

section \<open>Registry: merge and construction\<close>

text \<open>
  C6. Merging an update into the registry is idempotent: merging the same update a
  second time leaves the mapping as the first merge made it. Every key of the update
  then holds the update's whole entry, and every other key holds what it held before.
\<close>

theorem updateJobTypeRegistry_idempotent:
  "jobTypeRegistry (updateJobTypeRegistry U (updateJobTypeRegistry U w))
     = jobTypeRegistry (updateJobTypeRegistry U w)
   \<and> (\<forall>k \<in> dom U. jobTypeRegistry (updateJobTypeRegistry U w) k = U k)
   \<and> (\<forall>k. k \<notin> dom U \<longrightarrow>
         jobTypeRegistry (updateJobTypeRegistry U w) k = jobTypeRegistry w k)"
  by (auto simp: updateJobTypeRegistry_def map_add_def split: option.splits)

theorem updateJobTypeRegistry_idempotent_witness:
  "''swap'' \<in> dom [''swap'' \<mapsto> \<lparr>handlerType = ''eliza'', handler = None\<rparr>]
   \<and> ''odd'' \<notin> dom [''swap'' \<mapsto> \<lparr>handlerType = ''eliza'', handler = None\<rparr>]
   \<and> jobTypeRegistry
       (updateJobTypeRegistry [''swap'' \<mapsto> \<lparr>handlerType = ''eliza'', handler = None\<rparr>]
          (updateJobTypeRegistry [''swap'' \<mapsto> \<lparr>handlerType = ''eliza'', handler = None\<rparr>]
             sample_world))
       ''swap'' = Some \<lparr>handlerType = ''eliza'', handler = None\<rparr>
   \<and> jobTypeRegistry
       (updateJobTypeRegistry [''swap'' \<mapsto> \<lparr>handlerType = ''eliza'', handler = None\<rparr>]
          sample_world)
       ''odd'' = Some \<lparr>handlerType = ''manual'', handler = None\<rparr>"
  using updateJobTypeRegistry_idempotent
    [where U = "[''swap'' \<mapsto> \<lparr>handlerType = ''eliza'', handler = None\<rparr>]"
       and w = sample_world]
  by (simp add: sample_world_def)

text \<open>
  C9. After construction, the registry is the default registry overridden by the one
  of the configuration: a key of the supplied registry holds the supplied entry, any
  other key holds what the default holds; with no configuration, or one without a
  registry, the registry is the default one, which is empty.
\<close>

theorem constructor_registry:
  "jobTypeRegistry (AcpService_constructor None w) = createDefaultJobTypeRegistry
   \<and> jobTypeRegistry (AcpService_constructor (Some \<lparr>cfg_jobTypeRegistry = None\<rparr>) w)
       = createDefaultJobTypeRegistry
   \<and> (\<forall>k \<in> dom R. jobTypeRegistry
         (AcpService_constructor (Some \<lparr>cfg_jobTypeRegistry = Some R\<rparr>) w) k = R k)
   \<and> (\<forall>k. k \<notin> dom R \<longrightarrow> jobTypeRegistry
         (AcpService_constructor (Some \<lparr>cfg_jobTypeRegistry = Some R\<rparr>) w) k
           = createDefaultJobTypeRegistry k)
   \<and> createDefaultJobTypeRegistry = Map.empty"
  by (auto simp: AcpService_constructor_def createDefaultJobTypeRegistry_def map_add_def
      split: option.splits)

theorem constructor_registry_witness:
  "''chat'' \<in> dom [''chat'' \<mapsto> \<lparr>handlerType = ''eliza'', handler = None\<rparr>]
   \<and> ''swap'' \<notin> dom [''chat'' \<mapsto> \<lparr>handlerType = ''eliza'', handler = None\<rparr>]
   \<and> jobTypeRegistry
       (AcpService_constructor
          (Some \<lparr>cfg_jobTypeRegistry =
                   Some [''chat'' \<mapsto> \<lparr>handlerType = ''eliza'', handler = None\<rparr>]\<rparr>)
          sample_world)
       ''chat'' = Some \<lparr>handlerType = ''eliza'', handler = None\<rparr>
   \<and> jobTypeRegistry
       (AcpService_constructor
          (Some \<lparr>cfg_jobTypeRegistry =
                   Some [''chat'' \<mapsto> \<lparr>handlerType = ''eliza'', handler = None\<rparr>]\<rparr>)
          sample_world)
       ''swap'' = None"
  using constructor_registry
    [where R = "[''chat'' \<mapsto> \<lparr>handlerType = ''eliza'', handler = None\<rparr>]"
       and w = sample_world]
  by (simp add: createDefaultJobTypeRegistry_def)

section \<open>Forwarding operations\<close>

lemma rethrow_logged_call:
  "rethrow_logged msg (call env c) w =
     (case respond env (trace w) c of
        Inl e \<Rightarrow> (Raises e, w\<lparr>trace := trace w @ [Call c, Log Log_error msg (Some e)]\<rparr>)
      | Inr v \<Rightarrow> (Returns v, w\<lparr>trace := trace w @ [Call c]\<rparr>))"
  by (simp add: rethrow_logged_def call_def log_def emit_def split: sum.splits)

lemma forwards_rethrow_logged: "forwards env c msg (rethrow_logged msg (call env c)) w"
  by (simp add: forwards_def rethrow_logged_call split: sum.splits)

text \<open>
  C7. Each forwarding operation (the four paginated job queries, \<open>getJobById\<close>,
  \<open>getMemoById\<close>, \<open>getAccountByJobId\<close>, \<open>getByClientAndProvider\<close>) makes its one
  call to the protocol client. When the client raises, the operation logs one error
  line carrying the raised value and raises that same value; when the client returns,
  it returns the client's result as it is. The call is made every time (nothing is
  cached), once (nothing is retried), and the registry is not touched.
\<close>

theorem forwarding_unchanged:
  "forwards env (GetActiveJobs page pageSize) ''Error getting active jobs:''
     (getActiveJobs env page pageSize) w
   \<and> forwards env (GetCompletedJobs page pageSize) ''Error getting completed jobs:''
       (getCompletedJobs env page pageSize) w
   \<and> forwards env (GetCancelledJobs page pageSize) ''Error getting cancelled jobs:''
       (getCancelledJobs env page pageSize) w
   \<and> forwards env (GetPendingMemoJobs page pageSize) ''Error getting pending memo jobs:''
       (getPendingMemoJobs env page pageSize) w
   \<and> forwards env (GetJobById (js_Number env jobId)) ''Error getting job by ID:''
       (getJobById env jobId) w
   \<and> forwards env (GetMemoById (js_Number env jobId) (js_Number env memoId))
       ''Error getting memo by ID:'' (getMemoById env jobId memoId) w
   \<and> forwards env (GetAccountByJobId (js_Number env jobId)) ''Error getting account by job ID:''
       (getAccountByJobId env jobId) w
   \<and> forwards env (GetByClientAndProvider ca pa) ''Error getting account by addresses:''
       (getByClientAndProvider env ca pa) w"
  unfolding getActiveJobs_def getCompletedJobs_def getCancelledJobs_def getPendingMemoJobs_def
    getJobById_def getMemoById_def getAccountByJobId_def getByClientAndProvider_def
  by (intro conjI forwards_rethrow_logged)

section \<open>The job router\<close>

lemma getAccountByJobId_prelude:
  "getAccountByJobId env (js_String env (job_id job)) (log Log_info onNewTask_debug None w) =
     (case account_lookup env job w of
        Inl e \<Rightarrow> (Raises e, w\<lparr>trace := trace w @ prelude_failed env job e\<rparr>)
      | Inr v \<Rightarrow> (Returns v, w\<lparr>trace := trace w @
           [Log Log_info onNewTask_debug None, Call (account_call env job)]\<rparr>))"
  by (simp add: getAccountByJobId_def rethrow_logged_call account_lookup_def account_call_def
      prelude_failed_def log_def emit_def split: sum.splits)

text \<open>The router, with what it does before the dispatch written out.\<close>

lemma handleNewTask_unfold:
  "handleNewTask env job memoToSign w =
     (case account_lookup env job w of
        Inl e \<Rightarrow> (Raises e, w\<lparr>trace := trace w @ prelude_failed env job e\<rparr>)
      | Inr v \<Rightarrow>
          (let w2 = w\<lparr>trace := trace w @ prelude env job\<rparr> in
           case jobTypeConfig_of w job of
             Nothing \<Rightarrow>
               (Returns (),
                log Log_warn ''[handleNewTask] No configuration found for job type: '' None w2)
           | InheritedProperty \<Rightarrow> (Returns (), w2)
           | OwnEntry cfg \<Rightarrow>
               if handlerType cfg = ''predetermined'' then
                 (case handler cfg of
                    Some h \<Rightarrow>
                      catch_logged ''[handleNewTask] Error in predetermined handler for :''
                        (invoke env h job memoToSign) w2
                  | None \<Rightarrow>
                      (Returns (),
                       log Log_warn
                         ''[handleNewTask] No handler function provided for predetermined job type: ''
                         None w2))
               else if handlerType cfg = ''eliza'' then
                 processJobWithEliza env job memoToSign w2
               else (Returns (), w2)))"
proof -
  have same: "jobTypeConfig_of (w\<lparr>trace := t\<rparr>) job = jobTypeConfig_of w job" for t
    by (simp add: jobTypeConfig_of_def split: option.splits)
  show ?thesis
    unfolding handleNewTask_def Let_def getAccountByJobId_prelude
    by (simp add: prelude_def same log_def emit_def
        split: sum.splits looked_up.splits option.splits)
qed

text \<open>A job whose entry says \<^verbatim>\<open>eliza\<close> is handed to the AI delegation path.\<close>

lemma handleNewTask_eliza:
  assumes "jobTypeConfig_of w job = OwnEntry cfg" and "handlerType cfg = ''eliza''"
    and "account_lookup env job w = Inr v"
  shows "handleNewTask env job memoToSign w
           = processJobWithEliza env job memoToSign (w\<lparr>trace := trace w @ prelude env job\<rparr>)"
  using assms by (simp add: handleNewTask_unfold)

text \<open>
  A job named after an inherited property, with no entry of its own: the lookup finds
  the inherited value, and the router returns without the warning.
\<close>

lemma handleNewTask_inherited_name:
  assumes "job_name job = Some n" and "jobTypeRegistry w n = None"
    and "n \<in> set Object_prototype_keys" and "account_lookup env job w = Inr v"
  shows "handleNewTask env job memoToSign w
           = (Returns (), w\<lparr>trace := trace w @ prelude env job\<rparr>)"
proof -
  have "n \<noteq> []" using assms(3) by (auto simp: Object_prototype_keys_def)
  then have "jobTypeConfig_of w job = InheritedProperty"
    using assms(1-3) by (simp add: jobTypeConfig_of_def)
  then show ?thesis
    using assms(4) by (simp add: handleNewTask_unfold)
qed

text \<open>
  C1, as the code has it. For a job whose type name is absent from the registry (or
  that has no name), the router makes exactly one call to the protocol client, the
  account lookup for the job's id, and leaves the registry as it was. When that lookup
  returns, the router returns without raising. When moreover the name is not the name
  of a property that every object inherits, the router writes the warning, and that
  is all it does after the lookup.
\<close>

theorem handleNewTask_absent:
  assumes "\<And>n. job_name job = Some n \<Longrightarrow> jobTypeRegistry w n = None"
  shows "protocol_calls (events_since w (snd (handleNewTask env job memoToSign w)))
           = [account_call env job]
    \<and> jobTypeRegistry (snd (handleNewTask env job memoToSign w)) = jobTypeRegistry w
    \<and> (\<forall>account. account_lookup env job w = Inr account \<longrightarrow>
          fst (handleNewTask env job memoToSign w) = Returns ())
    \<and> (\<not> inherited_name job \<longrightarrow>
        (\<forall>account. account_lookup env job w = Inr account \<longrightarrow>
          handleNewTask env job memoToSign w =
            (Returns (),
             w\<lparr>trace := trace w @ prelude env job @
                 [Log Log_warn ''[handleNewTask] No configuration found for job type: ''
                    None]\<rparr>)))"
proof -
  have cfg: "jobTypeConfig_of w job = (if inherited_name job then InheritedProperty else Nothing)"
    using assms
    by (auto simp: jobTypeConfig_of_def inherited_name_def Object_prototype_keys_def
        split: option.splits)
  have eq: "handleNewTask env job memoToSign w =
     (case account_lookup env job w of
        Inl e \<Rightarrow> (Raises e, w\<lparr>trace := trace w @ prelude_failed env job e\<rparr>)
      | Inr v \<Rightarrow>
          (Returns (),
           w\<lparr>trace := trace w @ prelude env job @
               (if inherited_name job then []
                else [Log Log_warn ''[handleNewTask] No configuration found for job type: ''
                        None])\<rparr>))"
    by (simp add: handleNewTask_unfold cfg log_def emit_def split: sum.splits)
  show ?thesis
    unfolding eq by (simp split: sum.splits)
qed

theorem handleNewTask_absent_witness:
  "jobTypeRegistry sample_world ''unknown'' = None
   \<and> \<not> inherited_name (sample_job ''unknown'' REQUEST)
   \<and> handleNewTask sample_env (sample_job ''unknown'' REQUEST) None sample_world =
       (Returns (),
        sample_world\<lparr>trace :=
          [Log Log_info onNewTask_debug None, Call (GetAccountByJobId 7),
           Log Log_info ''[DCA DEBUG] job Account: '' None,
           Log Log_warn ''[handleNewTask] No configuration found for job type: '' None]\<rparr>)"
proof -
  have absent: "\<And>n. job_name (sample_job ''unknown'' REQUEST) = Some n
                  \<Longrightarrow> jobTypeRegistry sample_world n = None"
    by (simp add: sample_job_def sample_world_def)
  have own: "\<not> inherited_name (sample_job ''unknown'' REQUEST)"
    by (simp add: inherited_name_def sample_job_def Object_prototype_keys_def)
  have returns:
    "account_lookup sample_env (sample_job ''unknown'' REQUEST) sample_world = Inr ''ok''"
    by (simp add: account_lookup_def sample_env_def)
  show ?thesis
    using handleNewTask_absent [where job = "sample_job ''unknown'' REQUEST" and w = sample_world
        and env = sample_env and memoToSign = None, OF absent] returns own
    by (simp add: sample_world_def prelude_def account_call_def sample_env_def sample_job_def)
qed

text \<open>
  The claim as it was stated fails: for a job type that is not in the registry, the
  router does call the protocol client (the account lookup), and when that lookup
  raises, so does the router. And for a job named \<^verbatim>\<open>constructor\<close>, which is not in
  the registry either, the router returns without having written the warning.
\<close>

theorem handleNewTask_absent_counterexample:
  "jobTypeRegistry sample_world ''unknown'' = None
   \<and> protocol_calls (events_since sample_world
        (snd (handleNewTask sample_env (sample_job ''unknown'' REQUEST) None sample_world)))
       = [GetAccountByJobId 7]
   \<and> fst (handleNewTask lookup_fails (sample_job ''unknown'' REQUEST) None sample_world)
       = Raises (ErrorObj ''rpc unreachable'')
   \<and> jobTypeRegistry sample_world ''constructor'' = None
   \<and> handleNewTask sample_env (sample_job ''constructor'' REQUEST) None sample_world =
       (Returns (),
        sample_world\<lparr>trace :=
          [Log Log_info onNewTask_debug None, Call (GetAccountByJobId 7),
           Log Log_info ''[DCA DEBUG] job Account: '' None]\<rparr>)"
  by (simp add: handleNewTask_unfold account_lookup_def jobTypeConfig_of_def sample_env_def
      lookup_fails_def sample_job_def sample_world_def log_def emit_def account_call_def
      events_since_def prelude_def prelude_failed_def Object_prototype_keys_def)

text \<open>
  C5. For a job routed to a predetermined handler, the handler function is invoked
  once. Whatever it raises is caught and written to the error log, and the router
  returns: the router raises only when the account lookup, made before the handler is
  reached, raises, and then the handler has not been invoked at all.
\<close>

theorem handleNewTask_handler_failure_swallowed:
  assumes "jobTypeConfig_of w job = OwnEntry cfg"
    and "handlerType cfg = ''predetermined''" and "handler cfg = Some h"
  shows "handleNewTask env job memoToSign w =
     (case account_lookup env job w of
        Inl e \<Rightarrow> (Raises e, w\<lparr>trace := trace w @ prelude_failed env job e\<rparr>)
      | Inr v \<Rightarrow>
          (case run_handler env h job memoToSign (w\<lparr>trace := trace w @ prelude env job\<rparr>) of
             (raised, es, reg) \<Rightarrow>
               (Returns (),
                \<lparr>trace = trace w @ prelude env job @ Invoke h # es @
                   (case raised of
                      None \<Rightarrow> []
                    | Some e \<Rightarrow>
                        [Log Log_error ''[handleNewTask] Error in predetermined handler for :''
                           (Some e)]),
                 jobTypeRegistry = reg\<rparr>)))
    \<and> (\<forall>v. account_lookup env job w = Inr v \<longrightarrow>
          fst (handleNewTask env job memoToSign w) = Returns ())
    \<and> (\<forall>x. fst (handleNewTask env job memoToSign w) = Raises x \<longrightarrow>
          account_lookup env job w = Inl x)"
  using assms
  by (simp add: handleNewTask_unfold catch_logged_def invoke_def log_def emit_def
      split: sum.splits prod.splits option.splits)

theorem handleNewTask_handler_failure_swallowed_witness:
  "jobTypeConfig_of sample_world (sample_job ''swap'' REQUEST)
     = OwnEntry \<lparr>handlerType = ''predetermined'', handler = Some 1\<rparr>
   \<and> run_handler handler_fails 1 (sample_job ''swap'' REQUEST) None
       (sample_world\<lparr>trace := prelude handler_fails (sample_job ''swap'' REQUEST)\<rparr>)
       = (Some (ErrorObj ''handler broke''), [], jobTypeRegistry sample_world)
   \<and> handleNewTask handler_fails (sample_job ''swap'' REQUEST) None sample_world =
       (Returns (),
        sample_world\<lparr>trace :=
          [Log Log_info onNewTask_debug None, Call (GetAccountByJobId 7),
           Log Log_info ''[DCA DEBUG] job Account: '' None, Invoke 1,
           Log Log_error ''[handleNewTask] Error in predetermined handler for :''
             (Some (ErrorObj ''handler broke''))]\<rparr>)"
proof -
  have cfg: "jobTypeConfig_of sample_world (sample_job ''swap'' REQUEST)
               = OwnEntry \<lparr>handlerType = ''predetermined'', handler = Some 1\<rparr>"
    by (simp add: jobTypeConfig_of_def sample_world_def sample_job_def)
  show ?thesis
    using handleNewTask_handler_failure_swallowed [where h = 1 and memoToSign = None
        and env = handler_fails, OF cfg] cfg
    by (simp add: account_lookup_def handler_fails_def sample_env_def prelude_def
        account_call_def sample_job_def sample_world_def)
qed

text \<open>
  C8. For a job whose registry entry has a handler type other than the two defined
  ones, the router does nothing in its dispatch: when the account lookup has returned,
  the router returns and has done exactly what it does for every job before the
  dispatch (the debug line, the account lookup, the account line), with no further
  call and no further log line, and the registry untouched.
\<close>

theorem handleNewTask_unrecognized:
  assumes "jobTypeConfig_of w job = OwnEntry cfg"
    and "handlerType cfg \<noteq> ''predetermined''" and "handlerType cfg \<noteq> ''eliza''"
  shows "handleNewTask env job memoToSign w =
     (case account_lookup env job w of
        Inl e \<Rightarrow> (Raises e, w\<lparr>trace := trace w @ prelude_failed env job e\<rparr>)
      | Inr v \<Rightarrow> (Returns (), w\<lparr>trace := trace w @ prelude env job\<rparr>))
    \<and> (\<forall>v. account_lookup env job w = Inr v \<longrightarrow>
          events_since w (snd (handleNewTask env job memoToSign w)) = prelude env job)"
  using assms by (simp add: handleNewTask_unfold split: sum.splits)

theorem handleNewTask_unrecognized_witness:
  "jobTypeConfig_of sample_world (sample_job ''odd'' REQUEST)
     = OwnEntry \<lparr>handlerType = ''manual'', handler = None\<rparr>
   \<and> handleNewTask sample_env (sample_job ''odd'' REQUEST) (Some (sample_memo NEGOTIATION))
       sample_world =
       (Returns (),
        sample_world\<lparr>trace :=
          [Log Log_info onNewTask_debug None, Call (GetAccountByJobId 7),
           Log Log_info ''[DCA DEBUG] job Account: '' None]\<rparr>)"
proof -
  have cfg: "jobTypeConfig_of sample_world (sample_job ''odd'' REQUEST)
               = OwnEntry \<lparr>handlerType = ''manual'', handler = None\<rparr>"
    by (simp add: jobTypeConfig_of_def sample_world_def sample_job_def)
  show ?thesis
    using handleNewTask_unrecognized [where env = sample_env
        and memoToSign = "Some (sample_memo NEGOTIATION)", OF cfg] cfg
    by (simp add: account_lookup_def sample_env_def prelude_def account_call_def sample_job_def
        sample_world_def)
qed

section \<open>The AI delegation path\<close>

lemma processJobWithElizaAI_unfold:
  "processJobWithElizaAI env job memoToSign (w\<lparr>trace := trace w @ [transaction_log]\<rparr>) =
     (case ensure_outcome env job w of
        Inl e \<Rightarrow>
          (Raises e, w\<lparr>trace := trace w @ [transaction_log, Call (ensure_call env job)]\<rparr>)
      | Inr _ \<Rightarrow>
          (case emit_outcome env job w of
             Inl e \<Rightarrow> (Raises e, w\<lparr>trace := trace w @ submitted env job\<rparr>)
           | Inr _ \<Rightarrow>
               (case pipeline_reply env job w of
                  None \<Rightarrow> (Pending, w\<lparr>trace := trace w @ submitted env job\<rparr>)
                | Some content \<Rightarrow>
                    (case content_text content of
                       None \<Rightarrow> (Returns None, w\<lparr>trace := trace w @ submitted env job\<rparr>)
                     | Some txt \<Rightarrow>
                         if txt = [] then
                           (Returns None, w\<lparr>trace := trace w @ submitted env job\<rparr>)
                         else
                           (case memory_outcome env job w txt of
                              Inl e \<Rightarrow>
                                (Returns None,
                                 w\<lparr>trace := trace w @ submitted env job @
                                     [Call (memory_call env job txt),
                                      Log Log_error ''Error in Eliza callback'' (Some e)]\<rparr>)
                            | Inr _ \<Rightarrow>
                                (Returns (Some \<lparr>d_type = ''text'', d_value = txt\<rparr>),
                                 w\<lparr>trace := trace w @ submitted env job @
                                     [Call (memory_call env job txt)]\<rparr>))))))"
  by (simp add: processJobWithElizaAI_def callback_def call_def Let_def log_def emit_def
      ensure_outcome_def emit_outcome_def pipeline_reply_def memory_outcome_def submitted_def
      ensure_call_def emit_call_def memory_call_def
      split: sum.splits option.splits)

lemma log_transaction:
  "log Log_info ''[Eliza ACP] TRANSACTION phase for job , processing with Eliza'' None w
     = w\<lparr>trace := trace w @ [transaction_log]\<rparr>"
  by (simp add: log_def emit_def transaction_log_def)

lemma transaction_calls:
  assumes "on_transaction job memoToSign"
  shows "protocol_calls (events_since w (snd (processJobWithEliza_with check env job memoToSign w)))
           = transaction_protocol_calls env job w"
proof -
  obtain m where m: "memoToSign = Some m" "nextPhase m = Some EVALUATION"
    and ph: "job_phase job = TRANSACTION"
    using assms by (auto simp: on_transaction_def split: option.splits)
  show ?thesis
    unfolding processJobWithEliza_with_def Let_def log_transaction
    by (simp add: m ph catch_logged_def await_then_def processJobWithElizaAI_unfold
        transaction_protocol_calls_def call_def log_def emit_def submitted_def
        ensure_call_def emit_call_def memory_call_def no_deliverable_reject_def
        split: sum.splits option.splits)
qed

lemma transaction_result:
  assumes "on_transaction job memoToSign"
  shows "fst (processJobWithEliza_with check env job memoToSign w) =
     (case ensure_outcome env job w of
        Inl e \<Rightarrow> Returns ()
      | Inr _ \<Rightarrow>
          (case emit_outcome env job w of
             Inl e \<Rightarrow> Returns ()
           | Inr _ \<Rightarrow> (case pipeline_reply env job w of None \<Rightarrow> Pending | Some _ \<Rightarrow> Returns ())))"
proof -
  obtain m where m: "memoToSign = Some m" "nextPhase m = Some EVALUATION"
    and ph: "job_phase job = TRANSACTION"
    using assms by (auto simp: on_transaction_def split: option.splits)
  show ?thesis
    unfolding processJobWithEliza_with_def Let_def log_transaction
    by (simp add: m ph catch_logged_def await_then_def processJobWithElizaAI_unfold
        call_def log_def emit_def
        split: sum.splits option.splits)
qed

lemma request_unfold:
  assumes "on_request job memoToSign"
  shows "processJobWithEliza_with check env job memoToSign w =
     (if check job then
        (case accept_outcome env job w of
           Inl e \<Rightarrow>
             (Returns (),
              w\<lparr>trace := trace w @
                  [request_log, Call (accept_call job),
                   Log Log_error ''Error in processJobWithEliza'' (Some e)]\<rparr>)
         | Inr _ \<Rightarrow>
             (case requirement_outcome env job w of
                Inl e \<Rightarrow>
                  (Returns (),
                   w\<lparr>trace := trace w @
                       [request_log, Call (accept_call job), Call (requirement_call env job),
                        Log Log_error ''Error in processJobWithEliza'' (Some e)]\<rparr>)
              | Inr _ \<Rightarrow>
                  (Returns (),
                   w\<lparr>trace := trace w @
                       [request_log, Call (accept_call job), Call (requirement_call env job),
                        Log Log_success ''[Eliza ACP] Job  accepted and requirement created''
                          None]\<rparr>)))
      else
        (case capability_reject_outcome env job w of
           Inl e \<Rightarrow>
             (Returns (),
              w\<lparr>trace := trace w @
                  [request_log, Call (capability_reject job),
                   Log Log_error ''Error in processJobWithEliza'' (Some e)]\<rparr>)
         | Inr _ \<Rightarrow>
             (Returns (),
              w\<lparr>trace := trace w @
                  [request_log, Call (capability_reject job),
                   Log Log_warn ''[Eliza ACP] Job  rejected by capability check'' None]\<rparr>)))"
proof -
  obtain m where m: "memoToSign = Some m" "nextPhase m = Some NEGOTIATION"
    and ph: "job_phase job = REQUEST"
    using assms by (auto simp: on_request_def split: option.splits)
  show ?thesis
    by (simp add: processJobWithEliza_with_def Let_def m ph catch_logged_def await_then_def
        call_def log_def emit_def accept_outcome_def requirement_outcome_def
        capability_reject_outcome_def request_log_def accept_call_def requirement_call_def
        capability_reject_def
        split: sum.splits)
qed

text \<open>
  C4, as the code has it. On the request transition (phase REQUEST, proposed next
  phase NEGOTIATION) the capability check of the service permits every job. When the
  check permits, exactly one accept call is made, followed, when the accept call
  returns, by exactly one requirement-creation call and the success line; when the
  accept call raises, the failure is written to the error log and nothing else is
  called. When a check does not permit, exactly one reject call with the capability
  reason is made, and no accept and no deliver call. The path itself never raises.
  The first two conjuncts give everything the path does, log lines included, for any
  check and for the service's own.
\<close>

theorem request_capability_check:
  assumes "on_request job memoToSign"
  shows "processJobWithEliza_with check env job memoToSign w =
     (if check job then
        (case accept_outcome env job w of
           Inl e \<Rightarrow>
             (Returns (),
              w\<lparr>trace := trace w @
                  [request_log, Call (accept_call job),
                   Log Log_error ''Error in processJobWithEliza'' (Some e)]\<rparr>)
         | Inr _ \<Rightarrow>
             (case requirement_outcome env job w of
                Inl e \<Rightarrow>
                  (Returns (),
                   w\<lparr>trace := trace w @
                       [request_log, Call (accept_call job), Call (requirement_call env job),
                        Log Log_error ''Error in processJobWithEliza'' (Some e)]\<rparr>)
              | Inr _ \<Rightarrow>
                  (Returns (),
                   w\<lparr>trace := trace w @
                       [request_log, Call (accept_call job), Call (requirement_call env job),
                        Log Log_success ''[Eliza ACP] Job  accepted and requirement created''
                          None]\<rparr>)))
      else
        (case capability_reject_outcome env job w of
           Inl e \<Rightarrow>
             (Returns (),
              w\<lparr>trace := trace w @
                  [request_log, Call (capability_reject job),
                   Log Log_error ''Error in processJobWithEliza'' (Some e)]\<rparr>)
         | Inr _ \<Rightarrow>
             (Returns (),
              w\<lparr>trace := trace w @
                  [request_log, Call (capability_reject job),
                   Log Log_warn ''[Eliza ACP] Job  rejected by capability check'' None]\<rparr>)))
    \<and> processJobWithEliza env job memoToSign w =
        (case accept_outcome env job w of
           Inl e \<Rightarrow>
             (Returns (),
              w\<lparr>trace := trace w @
                  [request_log, Call (accept_call job),
                   Log Log_error ''Error in processJobWithEliza'' (Some e)]\<rparr>)
         | Inr _ \<Rightarrow>
             (case requirement_outcome env job w of
                Inl e \<Rightarrow>
                  (Returns (),
                   w\<lparr>trace := trace w @
                       [request_log, Call (accept_call job), Call (requirement_call env job),
                        Log Log_error ''Error in processJobWithEliza'' (Some e)]\<rparr>)
              | Inr _ \<Rightarrow>
                  (Returns (),
                   w\<lparr>trace := trace w @
                       [request_log, Call (accept_call job), Call (requirement_call env job),
                        Log Log_success ''[Eliza ACP] Job  accepted and requirement created''
                          None]\<rparr>)))
    \<and> checkElizaCapability job
    \<and> fst (processJobWithEliza_with check env job memoToSign w) = Returns ()
    \<and> protocol_calls (events_since w (snd (processJobWithEliza_with check env job memoToSign w)))
        = (if check job then
             (case accept_outcome env job w of
                Inl e \<Rightarrow> [accept_call job]
              | Inr v \<Rightarrow> [accept_call job, requirement_call env job])
           else [capability_reject job])
    \<and> protocol_calls (events_since w (snd (processJobWithEliza env job memoToSign w)))
        = (case accept_outcome env job w of
             Inl e \<Rightarrow> [accept_call job]
           | Inr v \<Rightarrow> [accept_call job, requirement_call env job])"
  unfolding processJobWithEliza_def
  by (simp add: request_unfold [OF assms] checkElizaCapability_def split: sum.splits)

theorem request_capability_check_witness:
  "on_request (sample_job ''chat'' REQUEST) (Some (sample_memo NEGOTIATION))
   \<and> protocol_calls (events_since sample_world
        (snd (processJobWithEliza_with (\<lambda>job. False) sample_env (sample_job ''chat'' REQUEST)
                (Some (sample_memo NEGOTIATION)) sample_world)))
       = [Reject 7 ''Job requirement does not meet agent capability'']
   \<and> protocol_calls (events_since sample_world
        (snd (processJobWithEliza sample_env (sample_job ''chat'' REQUEST)
                (Some (sample_memo NEGOTIATION)) sample_world)))
       = [Accept 7 ''Job requirement matches agent capability'',
          CreateRequirement 7 ''Job 7 accepted, please make payment to proceed'']
   \<and> processJobWithEliza accept_fails (sample_job ''chat'' REQUEST)
        (Some (sample_memo NEGOTIATION)) sample_world
       = (Returns (),
          sample_world\<lparr>trace :=
            [request_log, Call (Accept 7 ''Job requirement matches agent capability''),
             Log Log_error ''Error in processJobWithEliza''
               (Some (ErrorObj ''accept failed''))]\<rparr>)"
proof -
  have req: "on_request (sample_job ''chat'' REQUEST) (Some (sample_memo NEGOTIATION))"
    by (simp add: on_request_def sample_job_def sample_memo_def)
  note permits_not = request_capability_check [where check = "\<lambda>job. False"
      and env = sample_env and w = sample_world, OF req]
  note accept_raises = request_capability_check [where check = "\<lambda>job. False"
      and env = accept_fails and w = sample_world, OF req]
  note rejected = permits_not [THEN conjunct2, THEN conjunct2, THEN conjunct2, THEN conjunct2,
      THEN conjunct1]
  note accepted = permits_not [THEN conjunct2, THEN conjunct2, THEN conjunct2, THEN conjunct2,
      THEN conjunct2]
  note logged = accept_raises [THEN conjunct2, THEN conjunct1]
  have empty: "trace sample_world = []"
    by (simp add: sample_world_def)
  show ?thesis
    using req rejected accepted logged
    by (simp add: accept_outcome_def sample_env_def accept_fails_def accept_call_def
        requirement_call_def capability_reject_def sample_job_def empty)
qed

text \<open>
  The claim as it was stated fails: when the accept call raises, no
  requirement-creation call follows it.
\<close>

theorem request_capability_check_counterexample:
  "on_request (sample_job ''chat'' REQUEST) (Some (sample_memo NEGOTIATION))
   \<and> checkElizaCapability (sample_job ''chat'' REQUEST)
   \<and> protocol_calls (events_since sample_world
        (snd (processJobWithEliza
accept_fails (sample_job ''chat'' REQUEST) (Some (sample_memo NEGOTIATION)) sample_world)))
       = [Accept 7 ''Job requirement matches agent capability'']"
proof -
  have req: "on_request (sample_job ''chat'' REQUEST) (Some (sample_memo NEGOTIATION))"
    by (simp add: on_request_def sample_job_def sample_memo_def)
  show ?thesis
    unfolding processJobWithEliza_def request_unfold [OF req]
    using req
    by (simp add: checkElizaCapability_def accept_outcome_def accept_fails_def sample_env_def
        accept_call_def sample_job_def)
qed

text \<open>
  The settlement transition (phase TRANSACTION, proposed next phase EVALUATION): a
  reply with a text whose response memory is stored is delivered, once; a reply
  without text is rejected, once, with the fixed reason.
\<close>

lemma deliverable_delivered:
  assumes "on_transaction job memoToSign"
    and "ensure_outcome env job w = Inr x" and "emit_outcome env job w = Inr y"
    and "pipeline_reply env job w = Some content"
    and "content_text content = Some txt" and "txt \<noteq> []"
    and "memory_outcome env job w txt = Inr z"
  shows "protocol_calls (events_since w (snd (processJobWithEliza env job memoToSign w)))
           = [Deliver (job_id job) \<lparr>d_type = ''text'', d_value = txt\<rparr>]"
  unfolding processJobWithEliza_def
  using assms(2-)
  by (simp add: transaction_calls [OF assms(1)] transaction_protocol_calls_def)

lemma empty_reply_rejected:
  assumes "on_transaction job memoToSign"
    and "ensure_outcome env job w = Inr x" and "emit_outcome env job w = Inr y"
    and "pipeline_reply env job w = Some content"
    and "\<not> truthy (content_text content)"
  shows "protocol_calls (events_since w (snd (processJobWithEliza env job memoToSign w)))
           = [no_deliverable_reject job]"
  unfolding processJobWithEliza_def
  using assms(2-)
  by (simp add: transaction_calls [OF assms(1)] transaction_protocol_calls_def truthy_def
      split: option.splits)

text \<open>
  A failure raised before the message has been handed over (by
  \<^verbatim>\<open>ensureConnection\<close>, or thrown by \<^verbatim>\<open>emitEvent\<close>) reaches the outer
  \<^verbatim>\<open>catch\<close>, which only logs it: the job is neither delivered nor rejected.
\<close>

lemma submission_failure_only_logged:
  assumes "on_transaction job memoToSign"
    and "ensure_outcome env job w = Inl e
         \<or> (\<exists>x. ensure_outcome env job w = Inr x \<and> emit_outcome env job w = Inl e)"
  shows "protocol_calls (events_since w (snd (processJobWithEliza env job memoToSign w))) = []
         \<and> fst (processJobWithEliza env job memoToSign w) = Returns ()"
  unfolding processJobWithEliza_def
  using assms(2)
  by (auto simp: transaction_calls [OF assms(1)] transaction_result [OF assms(1)]
      transaction_protocol_calls_def)

text \<open>
  C2, at the input where the code departs from it. The job is on the settlement
  transition and \<^verbatim>\<open>ensureConnection\<close> raises: the service logs the failure and
  returns, and makes no reject call (and no protocol call at all).
\<close>

theorem submission_failure_makes_no_reject:
  "on_transaction (sample_job ''chat'' TRANSACTION) (Some (sample_memo EVALUATION))
   \<and> ensure_outcome connection_fails (sample_job ''chat'' TRANSACTION) sample_world
       = Inl (ErrorObj ''connection refused'')
   \<and> processJobWithEliza connection_fails (sample_job ''chat'' TRANSACTION)
       (Some (sample_memo EVALUATION)) sample_world
       = (Returns (),
          sample_world\<lparr>trace :=
            [transaction_log, Call (EnsureConnection ''0xc1'' ''7''),
             Log Log_error ''Error in processJobWithEliza''
               (Some (ErrorObj ''connection refused''))]\<rparr>)
   \<and> protocol_calls (events_since sample_world
        (snd (processJobWithEliza connection_fails (sample_job ''chat'' TRANSACTION)
                (Some (sample_memo EVALUATION)) sample_world)))
       = []"
  by (simp add: processJobWithEliza_def processJobWithEliza_with_def processJobWithElizaAI_def
      catch_logged_def await_then_def call_def Let_def log_def emit_def connection_fails_def
      sample_env_def sample_job_def sample_memo_def sample_world_def on_transaction_def
      ensure_outcome_def ensure_call_def transaction_log_def or_else_def events_since_def)

text \<open>
  C10. On the settlement transition, when the pipeline invokes the reply callback with
  a non-empty text and the callback fails while storing the response memory, the
  promise is resolved with no deliverable (the failure is logged), and the job is
  rejected with the fixed reason instead of being delivered.
\<close>

theorem callback_failure_rejects:
  assumes "on_transaction job memoToSign"
    and "ensure_outcome env job w = Inr x" and "emit_outcome env job w = Inr y"
    and "pipeline_reply env job w = Some content"
    and "content_text content = Some txt" and "txt \<noteq> []"
    and "memory_outcome env job w txt = Inl e"
  shows "processJobWithElizaAI env job memoToSign (w\<lparr>trace := trace w @ [transaction_log]\<rparr>)
      = (Returns None,
         w\<lparr>trace := trace w @ submitted env job @
             [Call (memory_call env job txt),
              Log Log_error ''Error in Eliza callback'' (Some e)]\<rparr>)
    \<and> fst (processJobWithEliza env job memoToSign w) = Returns ()
    \<and> protocol_calls (events_since w (snd (processJobWithEliza env job memoToSign w)))
        = [no_deliverable_reject job]"
  unfolding processJobWithEliza_def
  using assms(2-)
  by (simp add: transaction_calls [OF assms(1)] transaction_result [OF assms(1)]
      processJobWithElizaAI_unfold transaction_protocol_calls_def)

theorem callback_failure_rejects_witness:
  "on_transaction (sample_job ''chat'' TRANSACTION) (Some (sample_memo EVALUATION))
   \<and> pipeline_reply memory_fails (sample_job ''chat'' TRANSACTION) sample_world
       = Some \<lparr>content_text = Some ''the answer''\<rparr>
   \<and> memory_outcome memory_fails (sample_job ''chat'' TRANSACTION) sample_world ''the answer''
       = Inl (ErrorObj ''database is down'')
   \<and> protocol_calls (events_since sample_world
        (snd (processJobWithEliza memory_fails (sample_job ''chat'' TRANSACTION)
                (Some (sample_memo EVALUATION)) sample_world)))
       = [Reject 7 ''Unable to process job requirement'']"
proof -
  have txn: "on_transaction (sample_job ''chat'' TRANSACTION) (Some (sample_memo EVALUATION))"
    by (simp add: on_transaction_def sample_job_def sample_memo_def)
  have ens: "ensure_outcome memory_fails (sample_job ''chat'' TRANSACTION) sample_world = Inr ''ok''"
    by (simp add: ensure_outcome_def memory_fails_def sample_env_def ensure_call_def)
  have emi: "emit_outcome memory_fails (sample_job ''chat'' TRANSACTION) sample_world = Inr ''ok''"
    by (simp add: emit_outcome_def memory_fails_def sample_env_def emit_call_def)
  have rep: "pipeline_reply memory_fails (sample_job ''chat'' TRANSACTION) sample_world
               = Some \<lparr>content_text = Some ''the answer''\<rparr>"
    by (simp add: pipeline_reply_def memory_fails_def sample_env_def)
  have body: "content_text \<lparr>content_text = Some ''the answer''\<rparr> = Some ''the answer''"
    by simp
  have ne: "''the answer'' \<noteq> []" by simp
  have mem: "memory_outcome memory_fails (sample_job ''chat'' TRANSACTION) sample_world
               ''the answer'' = Inl (ErrorObj ''database is down'')"
    by (simp add: memory_outcome_def memory_fails_def sample_env_def memory_call_def)
  show ?thesis
    using callback_failure_rejects [OF txn ens emi rep body ne mem] txn rep mem
    by (simp add: no_deliverable_reject_def sample_job_def)
qed

section \<open>The connection bootstrapper\<close>

lemma attempts_simps [simp]:
  "attempts [] = 0"
  "attempts (es @ fs) = attempts es + attempts fs"
  "attempts (Log lv m x # es) = attempts es"
  "attempts (Sleep ms # es) = attempts es"
  "attempts (Call c # es) = (if c = GetSetting ''ACP_WALLET_PRIVATE_KEY'' then 1 else 0) + attempts es"
  by (simp_all add: attempts_def)

lemma waits_simps [simp]:
  "waits [] = []"
  "waits (es @ fs) = waits es @ waits fs"
  "waits (Log lv m x # es) = waits es"
  "waits (Sleep ms # es) = ms # waits es"
  "waits (Call c # es) = waits es"
  by (simp_all add: waits_def)

text \<open>One run of \<open>setupClient\<close>: one attempt, no wait, and it settles.\<close>

lemma setupClient_events:
  "snd (setupClient env w) = w\<lparr>trace := trace w @ events_since w (snd (setupClient env w))\<rparr>
   \<and> attempts (events_since w (snd (setupClient env w))) = 1
   \<and> waits (events_since w (snd (setupClient env w))) = []
   \<and> fst (setupClient env w) \<noteq> Pending"
  by (simp add: setupClient_def Let_def await_then_def call_def log_def emit_def
      split: sum.splits)

lemma setupClient_effect:
  "\<exists>es. snd (setupClient env w) = w\<lparr>trace := trace w @ es\<rparr> \<and> attempts es = 1 \<and> waits es = []
        \<and> fst (setupClient env w) \<noteq> Pending"
  using setupClient_events [of env w] by blast

lemma backoff_Cons: "i < k \<Longrightarrow> backoff i k = 2 ^ i * 1000 # backoff (Suc i) k"
  by (simp add: backoff_def upt_conv_Cons)

lemma backoff_Nil [simp]: "backoff i i = []"
  by (simp add: backoff_def)

lemma loop_effect:
  fixes env :: "('n, 'r) env"
  shows "i < n \<Longrightarrow>
   \<exists>es k. i \<le> k \<and> k < n
     \<and> snd (setupClientWithRetry_from env n i w) = w\<lparr>trace := trace w @ es\<rparr>
     \<and> attempts es = Suc (k - i) \<and> waits es = backoff i k
     \<and> (fst (setupClientWithRetry_from env n i w) = Returns ()
        \<or> (Suc k = n \<and> (\<exists>e u. fst (setupClient env u) = Raises e
                              \<and> fst (setupClientWithRetry_from env n i w) = Raises e)))"
proof (induction "n - i" arbitrary: i w)
  case 0
  then show ?case by simp
next
  case (Suc d)
  obtain r w1 where sc: "setupClient env w = (r, w1)"
    by (cases "setupClient env w") 
  from setupClient_effect [of env w] sc
  obtain es where es: "w1 = w\<lparr>trace := trace w @ es\<rparr>" "attempts es = 1" "waits es = []"
    and settles: "r \<noteq> Pending"
    by auto
  show ?case
  proof (cases r)
    case (Returns u)
    have "setupClientWithRetry_from env n i w
            = (Returns (), w\<lparr>trace := trace w @ es @
                 [Log Log_info ''ACP client connected successfully'' None]\<rparr>)"
      using Suc.prems sc Returns es(1)
      by (simp add: setupClientWithRetry_from.simps [of env n i w] log_def emit_def)
    then show ?thesis
      using Suc.prems es by (intro exI [of _ "es @ [Log Log_info ''ACP client connected successfully'' None]"] exI [of _ i]) simp
  next
    case Pending
    then show ?thesis using settles by simp
  next
    case (Raises e)
    show ?thesis
    proof (cases "Suc i < n")
      case False
      then have last: "Suc i = n" using Suc.prems by simp
      have "setupClientWithRetry_from env n i w
              = (Raises e, w\<lparr>trace := trace w @ es @
                   [Log Log_error ''ACP client connection attempt  failed:'' (Some e)]\<rparr>)"
        using Suc.prems sc Raises es(1) last
        by (simp add: setupClientWithRetry_from.simps [of env n i w] log_def emit_def)
      moreover have "fst (setupClient env w) = Raises e"
        using sc Raises by simp
      ultimately show ?thesis
        using Suc.prems es last
        by (intro exI [of _ "es @ [Log Log_error ''ACP client connection attempt  failed:'' (Some e)]"]
            exI [of _ i]) auto
    next
      case True
      define pause :: "'n event list" where "pause =
        [Log Log_error ''ACP client connection attempt  failed:'' (Some e),
         Log Log_info ''Retrying in ms...'' None, Sleep (2 ^ i * 1000)]"
      define w2 where "w2 = w\<lparr>trace := trace w @ es @ pause\<rparr>"
      have step: "setupClientWithRetry_from env n i w = setupClientWithRetry_from env n (Suc i) w2"
        using Suc.prems sc Raises es(1) True
        by (simp add: setupClientWithRetry_from.simps [of env n i w] log_def emit_def Let_def
            w2_def pause_def)
      have "d = n - Suc i" using Suc.hyps(2) by simp
      from Suc.hyps(1) [OF this True, of w2]
      obtain es2 k where k: "Suc i \<le> k" "k < n"
        and w': "snd (setupClientWithRetry_from env n (Suc i) w2) = w2\<lparr>trace := trace w2 @ es2\<rparr>"
        and cnt: "attempts es2 = Suc (k - Suc i)" "waits es2 = backoff (Suc i) k"
        and res: "fst (setupClientWithRetry_from env n (Suc i) w2) = Returns ()
                  \<or> (Suc k = n \<and> (\<exists>e u. fst (setupClient env u) = Raises e
                        \<and> fst (setupClientWithRetry_from env n (Suc i) w2) = Raises e))"
        by blast
      have world: "snd (setupClientWithRetry_from env n i w)
                     = w\<lparr>trace := trace w @ (es @ pause @ es2)\<rparr>"
        using w' by (simp add: step w2_def)
      have "attempts (es @ pause @ es2) = Suc (k - i)"
        using es(2) cnt(1) k by (simp add: pause_def)
      moreover have "waits (es @ pause @ es2) = backoff i k"
        using es(3) cnt(2) k by (simp add: pause_def backoff_Cons [of i k])
      ultimately show ?thesis
        using world res k step
        by (intro exI [of _ "es @ pause @ es2"] exI [of _ k]) auto
    qed
  qed
qed

lemma loop_success_stops:
  "i < n \<Longrightarrow> fst (setupClient env u) = Returns x \<Longrightarrow>
   setupClientWithRetry_from env n i u =
     (Returns (), log Log_info ''ACP client connected successfully'' None (snd (setupClient env u)))"
  by (cases "setupClient env u") (simp add: setupClientWithRetry_from.simps [of env n i u])

lemma loop_never_returns:
  assumes fails: "\<forall>u. \<exists>e. fst (setupClient env u) = Raises e"
  shows "i < n \<Longrightarrow> fst (setupClientWithRetry_from env n i w) \<noteq> Returns ()"
proof (induction "n - i" arbitrary: i w)
  case 0
  then show ?case by simp
next
  case (Suc d)
  obtain e w1 where sc: "setupClient env w = (Raises e, w1)"
    using fails by (metis prod.collapse)
  show ?case
  proof (cases "Suc i < n")
    case True
    have "d = n - Suc i" using Suc.hyps(2) by simp
    from Suc.hyps(1) [OF this True] show ?thesis
      using Suc.prems sc True
      by (simp add: setupClientWithRetry_from.simps [of env n i w] Let_def)
  next
    case False
    then show ?thesis
      using Suc.prems sc
      by (simp add: setupClientWithRetry_from.simps [of env n i w] Let_def)
  qed
qed

lemma start_effect:
  "\<exists>es k. k < 3 \<and> trace (snd (start env config w)) = trace w @ es
     \<and> attempts es = Suc k \<and> waits es = backoff 0 k
     \<and> (fst (start env config w) = Returns ()
        \<or> (k = 2 \<and> fst (setupClientWithRetry env 3 (AcpService_constructor config
                        (log Log_log ''Constructing new AcpService...'' None w))) \<noteq> Returns ()
            \<and> (\<exists>e u. fst (setupClient env u) = Raises e
                  \<and> fst (start env config w)
                      = Raises (ErrorObj (''Failed to register service virtuals-acp: ''
                                           @ error_text e)))))"
proof -
  define service where
    "service = AcpService_constructor config (log Log_log ''Constructing new AcpService...'' None w)"
  have tr: "trace service = trace w @ [Log Log_log ''Constructing new AcpService...'' None]"
    by (simp add: service_def AcpService_constructor_def)
  from loop_effect [of 0 3 env service]
  obtain es k where k: "k < 3"
    and w': "snd (setupClientWithRetry_from env 3 0 service) = service\<lparr>trace := trace service @ es\<rparr>"
    and cnt: "attempts es = Suc k" "waits es = backoff 0 k"
    and res: "fst (setupClientWithRetry_from env 3 0 service) = Returns ()
              \<or> (Suc k = 3 \<and> (\<exists>e u. fst (setupClient env u) = Raises e
                    \<and> fst (setupClientWithRetry_from env 3 0 service) = Raises e))"
    by auto
  obtain r w1 where loop: "setupClientWithRetry_from env 3 0 service = (r, w1)"
    by (cases "setupClientWithRetry_from env 3 0 service")
  have w1: "w1 = service\<lparr>trace := trace service @ es\<rparr>" using w' loop by simp
  show ?thesis
  proof (cases r)
    case (Returns u)
    have "trace (snd (start env config w))
            = trace w @ (Log Log_log ''Constructing new AcpService...'' None # es @
                [Log Log_success '' ACP service started successfully'' None])"
      using loop Returns w1 tr
      by (simp add: start_def Let_def setupClientWithRetry_def service_def [symmetric])
    moreover have "fst (start env config w) = Returns ()"
      using loop Returns
      by (simp add: start_def Let_def setupClientWithRetry_def service_def [symmetric])
    ultimately show ?thesis
      using k cnt
      by (intro exI [of _ "Log Log_log ''Constructing new AcpService...'' None # es @
                [Log Log_success '' ACP service started successfully'' None]"] exI [of _ k]) simp
  next
    case Pending
    then show ?thesis using res loop by simp
  next
    case (Raises e)
    have "trace (snd (start env config w))
            = trace w @ (Log Log_log ''Constructing new AcpService...'' None # es @
                [Log Log_error ''Failed to start ACP service:'' (Some e)])"
      using loop Raises w1 tr
      by (simp add: start_def Let_def setupClientWithRetry_def service_def [symmetric])
    moreover have "fst (start env config w)
        = Raises (ErrorObj (''Failed to register service virtuals-acp: '' @ error_text e))"
      using loop Raises
      by (simp add: start_def Let_def setupClientWithRetry_def service_def [symmetric]
          ACP_SERVICE_NAME_def)
    moreover have "k = 2" "\<exists>u. fst (setupClient env u) = Raises e"
      using res loop Raises by auto
    moreover have "fst (setupClientWithRetry env 3 service) \<noteq> Returns ()"
      using loop Raises by (simp add: setupClientWithRetry_def)
    ultimately show ?thesis
      using k cnt unfolding service_def
      by (intro exI [of _ "Log Log_log ''Constructing new AcpService...'' None # es @
                [Log Log_error ''Failed to start ACP service:'' (Some e)]"] exI [of _ k]) auto
  qed
qed

text \<open>
  Bounds that hold for every start: between one and three attempts, with the waits
  that go with them.
\<close>

lemma bootstrap_bounds:
  "(\<exists>k<3. attempts (events_since w (snd (start env config w))) = Suc k
        \<and> waits (events_since w (snd (start env config w))) = map (\<lambda>i. 2 ^ i * 1000) [0..<k]
        \<and> (fst (start env config w) = Returns ()
           \<or> (k = 2 \<and> (\<exists>e u. fst (setupClient env u) = Raises e
                  \<and> fst (start env config w)
                      = Raises (ErrorObj (''Failed to register service virtuals-acp: ''
                                           @ error_text e))))))
   \<and> ((\<forall>u. \<exists>e. fst (setupClient env u) = Raises e) \<longrightarrow>
        attempts (events_since w (snd (start env config w))) = 3
        \<and> waits (events_since w (snd (start env config w))) = [1000, 2000]
        \<and> (\<exists>e. fst (start env config w)
                  = Raises (ErrorObj (''Failed to register service virtuals-acp: ''
                                       @ error_text e))))
   \<and> (\<forall>i n u x. i < n \<and> fst (setupClient env u) = Returns x \<longrightarrow>
        setupClientWithRetry_from env n i u =
          (Returns (),
           log Log_info ''ACP client connected successfully'' None (snd (setupClient env u))))"
proof (intro conjI)
  from start_effect [of env config w]
  obtain es k where k: "k < 3" and tr: "trace (snd (start env config w)) = trace w @ es"
    and cnt: "attempts es = Suc k" "waits es = backoff 0 k"
    and res: "fst (start env config w) = Returns ()
        \<or> (k = 2 \<and> fst (setupClientWithRetry env 3 (AcpService_constructor config
                        (log Log_log ''Constructing new AcpService...'' None w))) \<noteq> Returns ()
            \<and> (\<exists>e u. fst (setupClient env u) = Raises e
                  \<and> fst (start env config w)
                      = Raises (ErrorObj (''Failed to register service virtuals-acp: ''
                                           @ error_text e))))"
    by blast
  have ev: "events_since w (snd (start env config w)) = es"
    using tr by (rule events_since_trace)
  show "\<exists>k<3. attempts (events_since w (snd (start env config w))) = Suc k
        \<and> waits (events_since w (snd (start env config w))) = map (\<lambda>i. 2 ^ i * 1000) [0..<k]
        \<and> (fst (start env config w) = Returns ()
           \<or> (k = 2 \<and> (\<exists>e u. fst (setupClient env u) = Raises e
                  \<and> fst (start env config w)
                      = Raises (ErrorObj (''Failed to register service virtuals-acp: ''
                                           @ error_text e)))))"
    using k cnt res unfolding ev backoff_def by blast
  show "(\<forall>u. \<exists>e. fst (setupClient env u) = Raises e) \<longrightarrow>
        attempts (events_since w (snd (start env config w))) = 3
        \<and> waits (events_since w (snd (start env config w))) = [1000, 2000]
        \<and> (\<exists>e. fst (start env config w)
                  = Raises (ErrorObj (''Failed to register service virtuals-acp: ''
                                       @ error_text e)))"
  proof
    assume fails: "\<forall>u. \<exists>e. fst (setupClient env u) = Raises e"
    have "fst (setupClientWithRetry env 3 (AcpService_constructor config
                 (log Log_log ''Constructing new AcpService...'' None w))) \<noteq> Returns ()"
      unfolding setupClientWithRetry_def by (rule loop_never_returns [OF fails]) simp
    then have "fst (start env config w) \<noteq> Returns ()"
      by (cases "setupClientWithRetry env 3 (AcpService_constructor config
                 (log Log_log ''Constructing new AcpService...'' None w))")
         (auto simp: start_def Let_def split: outcome.splits)
    with res have k2: "k = 2"
      and raised: "\<exists>e. fst (start env config w)
                  = Raises (ErrorObj (''Failed to register service virtuals-acp: ''
                                       @ error_text e))"
      by auto
    have "[0..<2] = [0, Suc 0]" by (simp add: upt_rec)
    then have "backoff 0 2 = [1000, 2000]" by (simp add: backoff_def)
    then show "attempts (events_since w (snd (start env config w))) = 3
        \<and> waits (events_since w (snd (start env config w))) = [1000, 2000]
        \<and> (\<exists>e. fst (start env config w)
                  = Raises (ErrorObj (''Failed to register service virtuals-acp: ''
                                       @ error_text e)))"
      using cnt k2 raised unfolding ev by simp
  qed
  show "\<forall>i n u x. i < n \<and> fst (setupClient env u) = Returns x \<longrightarrow>
        setupClientWithRetry_from env n i u =
          (Returns (),
           log Log_info ''ACP client connected successfully'' None (snd (setupClient env u)))"
    using loop_success_stops by blast
qed

text \<open>The run of a start, followed attempt by attempt.\<close>

lemma retry_condition: "(int i < int n - 1) = (Suc i < n)"
  by auto

lemma loop_unfold_at:
  assumes "i < n"
  shows "setupClientWithRetry_from env n i (attempt_world env s i) =
     (case attempt_outcome env s i of
        Returns x \<Rightarrow>
          (Returns (),
           log Log_info ''ACP client connected successfully'' None
             (snd (setupClient env (attempt_world env s i))))
      | Pending \<Rightarrow> (Pending, snd (setupClient env (attempt_world env s i)))
      | Raises e \<Rightarrow>
          if Suc i < n then
            setupClientWithRetry_from env n (Suc i) (attempt_world env s (Suc i))
          else
            (Raises e,
             log Log_error ''ACP client connection attempt  failed:'' (Some e)
               (snd (setupClient env (attempt_world env s i)))))"
proof (cases "setupClient env (attempt_world env s i)")
  case (Pair r u)
  then show ?thesis
    using assms
    by (cases r)
       (simp_all add: setupClientWithRetry_from.simps [of env n i "attempt_world env s i"]
          attempt_outcome_def retry_world_def retry_condition Let_def)
qed

lemma attempt_world_trace:
  fixes env :: "('n, 'r) env"
  assumes "\<forall>j<i. \<exists>e. attempt_outcome env s j = Raises e"
  shows "\<exists>es. attempt_world env s i = s\<lparr>trace := trace s @ es\<rparr>
           \<and> attempts es = i \<and> waits es = backoff 0 i"
  using assms
proof (induction i)
  case 0
  show ?case by (intro exI [of _ "[]"]) simp
next
  case (Suc i)
  then obtain es where es: "attempt_world env s i = s\<lparr>trace := trace s @ es\<rparr>"
    "attempts es = i" "waits es = backoff 0 i"
    by auto
  from Suc.prems obtain e where "attempt_outcome env s i = Raises e" by auto
  then obtain u where sc: "setupClient env (attempt_world env s i) = (Raises e, u)"
    by (cases "setupClient env (attempt_world env s i)") (simp add: attempt_outcome_def)
  from setupClient_effect [of env "attempt_world env s i"] sc
  obtain es1 where es1: "u = (attempt_world env s i)\<lparr>trace := trace (attempt_world env s i) @ es1\<rparr>"
    "attempts es1 = 1" "waits es1 = []"
    by auto
  define pause :: "'n event list" where "pause =
    [Log Log_error ''ACP client connection attempt  failed:'' (Some e),
     Log Log_info ''Retrying in ms...'' None, Sleep (2 ^ i * 1000)]"
  have "attempt_world env s (Suc i) = s\<lparr>trace := trace s @ (es @ es1 @ pause)\<rparr>"
    using sc es(1) es1(1) by (simp add: retry_world_def log_def emit_def pause_def)
  moreover have "attempts (es @ es1 @ pause) = Suc i"
    using es(2) es1(2) by (simp add: pause_def)
  moreover have "waits (es @ es1 @ pause) = backoff 0 (Suc i)"
    using es(3) es1(3) by (simp add: pause_def backoff_def)
  ultimately show ?case by blast
qed

lemma loop_first_success:
  "i \<le> k \<Longrightarrow> k < n \<Longrightarrow>
   (\<forall>j. i \<le> j \<and> j < k \<longrightarrow> (\<exists>e. attempt_outcome env s j = Raises e)) \<Longrightarrow>
   attempt_outcome env s k = Returns () \<Longrightarrow>
   setupClientWithRetry_from env n i (attempt_world env s i) =
     (Returns (),
      log Log_info ''ACP client connected successfully'' None
        (snd (setupClient env (attempt_world env s k))))"
proof (induction "k - i" arbitrary: i)
  case 0
  then have "i = k" by simp
  then show ?case using 0 by (simp add: loop_unfold_at)
next
  case (Suc d)
  then have lt: "i < k" by simp
  then obtain e where e: "attempt_outcome env s i = Raises e"
    using Suc.prems(3) by auto
  have "d = k - Suc i" using Suc.hyps(2) by simp
  moreover have "Suc i \<le> k" using lt by simp
  moreover have "\<forall>j. Suc i \<le> j \<and> j < k \<longrightarrow> (\<exists>e. attempt_outcome env s j = Raises e)"
    using Suc.prems(3) by auto
  ultimately have "setupClientWithRetry_from env n (Suc i) (attempt_world env s (Suc i)) =
     (Returns (),
      log Log_info ''ACP client connected successfully'' None
        (snd (setupClient env (attempt_world env s k))))"
    using Suc.hyps(1) Suc.prems(2,4) by blast
  moreover have "i < n" "Suc i < n" using lt Suc.prems(2) by auto
  ultimately show ?case
    by (simp add: loop_unfold_at e)
qed

lemma loop_all_fail:
  "i < n \<Longrightarrow>
   (\<forall>j. i \<le> j \<and> j < n \<longrightarrow> (\<exists>e. attempt_outcome env s j = Raises e)) \<Longrightarrow>
   \<exists>e. attempt_outcome env s (n - 1) = Raises e
     \<and> setupClientWithRetry_from env n i (attempt_world env s i) =
         (Raises e,
          log Log_error ''ACP client connection attempt  failed:'' (Some e)
            (snd (setupClient env (attempt_world env s (n - 1)))))"
proof (induction "n - i" arbitrary: i)
  case 0
  then show ?case by simp
next
  case (Suc d)
  obtain e where e: "attempt_outcome env s i = Raises e"
    using Suc.prems by auto
  show ?case
  proof (cases "Suc i < n")
    case False
    then have "i = n - 1" using Suc.prems(1) by simp
    then show ?thesis
      using e Suc.prems(1) False by (auto simp: loop_unfold_at)
  next
    case True
    have "d = n - Suc i" using Suc.hyps(2) by simp
    moreover have "\<forall>j. Suc i \<le> j \<and> j < n \<longrightarrow> (\<exists>e. attempt_outcome env s j = Raises e)"
      using Suc.prems(2) by auto
    ultimately obtain e' where "attempt_outcome env s (n - 1) = Raises e'"
      "setupClientWithRetry_from env n (Suc i) (attempt_world env s (Suc i)) =
         (Raises e',
          log Log_error ''ACP client connection attempt  failed:'' (Some e')
            (snd (setupClient env (attempt_world env s (n - 1)))))"
      using Suc.hyps(1) True by blast
    then show ?thesis
      using e True Suc.prems(1) by (auto simp: loop_unfold_at)
  qed
qed

lemma service_world_trace:
  "trace (service_world config w)
     = trace w @ [Log Log_log ''Constructing new AcpService...'' None]"
  by (simp add: service_world_def AcpService_constructor_def)

lemma start_first_success:
  fixes env :: "('n, 'r) env"
  assumes "k < 3"
    and "\<forall>j<k. \<exists>e. attempt_outcome env (service_world config w) j = Raises e"
    and "attempt_outcome env (service_world config w) k = Returns ()"
  shows "fst (start env config w) = Returns ()
    \<and> attempts (events_since w (snd (start env config w))) = Suc k
    \<and> waits (events_since w (snd (start env config w))) = backoff 0 k"
proof -
  define s where "s = service_world config w"
  have tr_s: "trace s = trace w @ [Log Log_log ''Constructing new AcpService...'' None]"
    by (simp add: s_def service_world_trace)
  have loop: "setupClientWithRetry_from env 3 0 s =
     (Returns (),
      log Log_info ''ACP client connected successfully'' None
        (snd (setupClient env (attempt_world env s k))))"
    using loop_first_success [of 0 k 3 env s] assms by (simp add: s_def)
  from attempt_world_trace [of k env s] assms(2)
  obtain es where es: "attempt_world env s k = s\<lparr>trace := trace s @ es\<rparr>"
    "attempts es = k" "waits es = backoff 0 k"
    by (auto simp: s_def)
  from setupClient_effect [of env "attempt_world env s k"]
  obtain es1 where es1:
    "snd (setupClient env (attempt_world env s k))
       = (attempt_world env s k)\<lparr>trace := trace (attempt_world env s k) @ es1\<rparr>"
    "attempts es1 = 1" "waits es1 = []"
    by auto
  have res: "start env config w =
     (Returns (),
      log Log_success '' ACP service started successfully'' None
        (log Log_info ''ACP client connected successfully'' None
           (snd (setupClient env (attempt_world env s k)))))"
    using loop
    by (simp add: start_def Let_def setupClientWithRetry_def s_def service_world_def)
  have t1: "trace (snd (setupClient env (attempt_world env s k)))
              = trace (attempt_world env s k) @ es1"
    by (simp add: es1(1))
  have t2: "trace (attempt_world env s k) = trace s @ es"
    by (simp add: es(1))
  have "trace (snd (start env config w))
          =  trace w @ (Log Log_log ''Constructing new AcpService...'' None # es @ es1 @
              [Log Log_info ''ACP client connected successfully'' None,
               Log Log_success '' ACP service started successfully'' None])"
    by (simp add: res t1 t2 tr_s)
  then have "events_since w (snd (start env config w))
          = Log Log_log ''Constructing new AcpService...'' None # es @ es1 @
              [Log Log_info ''ACP client connected successfully'' None,
               Log Log_success '' ACP service started successfully'' None]"
    by (rule events_since_trace)
  then show ?thesis
    using res es(2,3) es1(2,3) by simp
qed

lemma start_all_fail:
  fixes env :: "('n, 'r) env"
  assumes "\<forall>j<3. \<exists>e. attempt_outcome env (service_world config w) j = Raises e"
  shows "\<exists>e. attempt_outcome env (service_world config w) 2 = Raises e
    \<and> fst (start env config w)
        = Raises (ErrorObj (''Failed to register service virtuals-acp: '' @ error_text e))
    \<and> attempts (events_since w (snd (start env config w))) = 3
    \<and> waits (events_since w (snd (start env config w))) = backoff 0 2"
proof -
  define s where "s = service_world config w"
  have tr_s: "trace s = trace w @ [Log Log_log ''Constructing new AcpService...'' None]"
    by (simp add: s_def service_world_trace)
  from loop_all_fail [of 0 3 env s] assms
  obtain e where e: "attempt_outcome env s 2 = Raises e"
    and loop: "setupClientWithRetry_from env 3 0 s =
         (Raises e,
          log Log_error ''ACP client connection attempt  failed:'' (Some e)
            (snd (setupClient env (attempt_world env s 2))))"
    by (auto simp: s_def)
  have "\<forall>j<2. \<exists>e. attempt_outcome env s j = Raises e"
    using assms by (simp add: s_def)
  from attempt_world_trace [OF this]
  obtain es where es: "attempt_world env s 2 = s\<lparr>trace := trace s @ es\<rparr>"
    "attempts es = 2" "waits es = backoff 0 2"
    by auto
  from setupClient_effect [of env "attempt_world env s 2"]
  obtain es1 where es1:
    "snd (setupClient env (attempt_world env s 2))
       = (attempt_world env s 2)\<lparr>trace := trace (attempt_world env s 2) @ es1\<rparr>"
    "attempts es1 = 1" "waits es1 = []"
    by auto
  have res: "start env config w =
     (Raises (ErrorObj (''Failed to register service virtuals-acp: '' @ error_text e)),
      log Log_error ''Failed to start ACP service:'' (Some e)
        (log Log_error ''ACP client connection attempt  failed:'' (Some e)
           (snd (setupClient env (attempt_world env s 2)))))"
    using loop
    by (simp add: start_def Let_def setupClientWithRetry_def s_def service_world_def
        ACP_SERVICE_NAME_def)
  have t1: "trace (snd (setupClient env (attempt_world env s 2)))
              = trace (attempt_world env s 2) @ es1"
    by (simp add: es1(1))
  have t2: "trace (attempt_world env s 2) = trace s @ es"
    by (simp add: es(1))
  have "trace (snd (start env config w))
          =  trace w @ (Log Log_log ''Constructing new AcpService...'' None # es @ es1 @
              [Log Log_error ''ACP client connection attempt  failed:'' (Some e),
               Log Log_error ''Failed to start ACP service:'' (Some e)])"
    by (simp add: res t1 t2 tr_s)
  then have "events_since w (snd (start env config w))
          = Log Log_log ''Constructing new AcpService...'' None # es @ es1 @
              [Log Log_error ''ACP client connection attempt  failed:'' (Some e),
               Log Log_error ''Failed to start ACP service:'' (Some e)]"
    by (rule events_since_trace)
  then show ?thesis
    using res e es(2,3) es1(2,3) by (auto simp: s_def)
qed

lemma attempt_settles:
  "attempt_outcome env s j = Returns () \<or> (\<exists>e. attempt_outcome env s j = Raises e)"
  using setupClient_events [of env "attempt_world env s j"]
  by (cases "attempt_outcome env s j") (auto simp: attempt_outcome_def)

lemma attempts_exhaustive:
  "(\<exists>k<3. (\<forall>j<k. \<exists>e. attempt_outcome env s j = Raises e) \<and> attempt_outcome env s k = Returns ())
   \<or> (\<forall>j<3. \<exists>e. attempt_outcome env s j = Raises e)"
proof -
  have lt1: "j < 1 \<longleftrightarrow> j = 0" for j :: nat by auto
  have lt2: "j < 2 \<longleftrightarrow> j = 0 \<or> j = 1" for j :: nat by auto
  have lt3: "j < 3 \<longleftrightarrow> j = 0 \<or> j = 1 \<or> j = 2" for j :: nat by auto
  consider (first) "attempt_outcome env s 0 = Returns ()"
    | (second) e0 where "attempt_outcome env s 0 = Raises e0"
        "attempt_outcome env s 1 = Returns ()"
    | (third) e0 e1 where "attempt_outcome env s 0 = Raises e0"
        "attempt_outcome env s 1 = Raises e1" "attempt_outcome env s 2 = Returns ()"
    | (none) e0 e1 e2 where "attempt_outcome env s 0 = Raises e0"
        "attempt_outcome env s 1 = Raises e1" "attempt_outcome env s 2 = Raises e2"
    using attempt_settles [of env s 0] attempt_settles [of env s 1] attempt_settles [of env s 2]
    by blast
  then show ?thesis
  proof cases
    case first
    then have "(\<forall>j<0. \<exists>e. attempt_outcome env s j = Raises e)
                \<and> attempt_outcome env s 0 = Returns ()"
      by simp
    then show ?thesis by (intro disjI1 exI [of _ 0]) simp
  next
    case second
    then have "(\<forall>j<1. \<exists>e. attempt_outcome env s j = Raises e)
                \<and> attempt_outcome env s 1 = Returns ()"
      by (simp add: lt1)
    then show ?thesis by (intro disjI1 exI [of _ 1]) simp
  next
    case third
    then have "(\<forall>j<2. \<exists>e. attempt_outcome env s j = Raises e)
                \<and> attempt_outcome env s 2 = Returns ()"
      by (auto simp: lt2)
    then show ?thesis by (intro disjI1 exI [of _ 2]) simp
  next
    case none
    then have "\<forall>j<3. \<exists>e. attempt_outcome env s j = Raises e"
      by (auto simp: lt3)
    then show ?thesis by (rule disjI2)
  qed
qed

lemma bootstrap_by_attempts:
  "(\<forall>k<3. (\<forall>j<k. \<exists>e. attempt_outcome env (service_world config w) j = Raises e)
            \<and> attempt_outcome env (service_world config w) k = Returns () \<longrightarrow>
        fst (start env config w) = Returns ()
        \<and> attempts (events_since w (snd (start env config w))) = Suc k
        \<and> waits (events_since w (snd (start env config w))) = map (\<lambda>i. 2 ^ i * 1000) [0..<k])
   \<and> ((\<forall>j<3. \<exists>e. attempt_outcome env (service_world config w) j = Raises e) \<longrightarrow>
        attempts (events_since w (snd (start env config w))) = 3
        \<and> waits (events_since w (snd (start env config w))) = [1000, 2000]
        \<and> (\<exists>e. attempt_outcome env (service_world config w) 2 = Raises e
              \<and> fst (start env config w)
                  = Raises (ErrorObj (''Failed to register service virtuals-acp: ''
                                       @ error_text e))))
   \<and> ((\<exists>k<3. (\<forall>j<k. \<exists>e. attempt_outcome env (service_world config w) j = Raises e)
             \<and> attempt_outcome env (service_world config w) k = Returns ())
        \<or> (\<forall>j<3. \<exists>e. attempt_outcome env (service_world config w) j = Raises e))"
proof (intro conjI)
  show "\<forall>k<3. (\<forall>j<k. \<exists>e. attempt_outcome env (service_world config w) j = Raises e)
            \<and> attempt_outcome env (service_world config w) k = Returns () \<longrightarrow>
        fst (start env config w) = Returns ()
        \<and> attempts (events_since w (snd (start env config w))) = Suc k
        \<and> waits (events_since w (snd (start env config w))) = map (\<lambda>i. 2 ^ i * 1000) [0..<k]"
    using start_first_success [of _ env config w] unfolding backoff_def by blast
  have two: "backoff 0 2 = [1000, 2000]"
  proof -
    have "[0..<2] = [0, Suc 0]" by (simp add: upt_rec)
    then show ?thesis by (simp add: backoff_def)
  qed
  show "(\<forall>j<3. \<exists>e. attempt_outcome env (service_world config w) j = Raises e) \<longrightarrow>
        attempts (events_since w (snd (start env config w))) = 3
        \<and> waits (events_since w (snd (start env config w))) = [1000, 2000]
        \<and> (\<exists>e. attempt_outcome env (service_world config w) 2 = Raises e
              \<and> fst (start env config w)
                  = Raises (ErrorObj (''Failed to register service virtuals-acp: ''
                                       @ error_text e)))"
    using start_all_fail [of env config w] unfolding two by blast
  show "(\<exists>k<3. (\<forall>j<k. \<exists>e. attempt_outcome env (service_world config w) j = Raises e)
             \<and> attempt_outcome env (service_world config w) k = Returns ())
        \<or> (\<forall>j<3. \<exists>e. attempt_outcome env (service_world config w) j = Raises e)"
    by (rule attempts_exhaustive)
qed

text \<open>
  C3. The outcome of a start is fixed by how the attempts end, each in the world the
  run has reached (\<open>attempt_outcome\<close>), whatever \<open>setupClient\<close> would do elsewhere.
  When attempt \<open>k\<close> (counted from zero, below three) is the first to succeed, the start
  returns, exactly \<open>k + 1\<close> attempts have been made, and the waits were \<open>2 ^ i\<close>
  seconds after each failed attempt \<open>i\<close>. When the three attempts fail, exactly three
  attempts have been made, the waits were 1000 ms and 2000 ms, and the start raises an
  error whose message is \<^verbatim>\<open>Failed to register service virtuals-acp: \<close> followed by
  the text of the third failure. Every start is one of these two. The last three
  conjuncts add: the attempts are between one and three in every case; a
  \<open>setupClient\<close> that fails everywhere gives the failing start; and inside the loop a
  successful attempt returns at once.
\<close>

theorem bootstrap_retries:
  "(\<forall>k<3. (\<forall>j<k. \<exists>e. attempt_outcome env (service_world config w) j = Raises e)
            \<and> attempt_outcome env (service_world config w) k = Returns () \<longrightarrow>
        fst (start env config w) = Returns ()
        \<and> attempts (events_since w (snd (start env config w))) = Suc k
        \<and> waits (events_since w (snd (start env config w))) = map (\<lambda>i. 2 ^ i * 1000) [0..<k])
   \<and> ((\<forall>j<3. \<exists>e. attempt_outcome env (service_world config w) j = Raises e) \<longrightarrow>
        attempts (events_since w (snd (start env config w))) = 3
        \<and> waits (events_since w (snd (start env config w))) = [1000, 2000]
        \<and> (\<exists>e. attempt_outcome env (service_world config w) 2 = Raises e
              \<and> fst (start env config w)
                  = Raises (ErrorObj (''Failed to register service virtuals-acp: ''
                                       @ error_text e))))
   \<and> ((\<exists>k<3. (\<forall>j<k. \<exists>e. attempt_outcome env (service_world config w) j = Raises e)
             \<and> attempt_outcome env (service_world config w) k = Returns ())
        \<or> (\<forall>j<3. \<exists>e. attempt_outcome env (service_world config w) j = Raises e))
   \<and> (\<exists>k<3. attempts (events_since w (snd (start env config w))) = Suc k
        \<and> waits (events_since w (snd (start env config w))) = map (\<lambda>i. 2 ^ i * 1000) [0..<k]
        \<and> (fst (start env config w) = Returns ()
           \<or> (k = 2 \<and> (\<exists>e u. fst (setupClient env u) = Raises e
                  \<and> fst (start env config w)
                      = Raises (ErrorObj (''Failed to register service virtuals-acp: ''
                                           @ error_text e))))))
   \<and> ((\<forall>u. \<exists>e. fst (setupClient env u) = Raises e) \<longrightarrow>
        attempts (events_since w (snd (start env config w))) = 3
        \<and> waits (events_since w (snd (start env config w))) = [1000, 2000]
        \<and> (\<exists>e. fst (start env config w)
                  = Raises (ErrorObj (''Failed to register service virtuals-acp: ''
                                       @ error_text e))))
   \<and> (\<forall>i n u x. i < n \<and> fst (setupClient env u) = Returns x \<longrightarrow>
        setupClientWithRetry_from env n i u =
          (Returns (),
           log Log_info ''ACP client connected successfully'' None (snd (setupClient env u))))"
proof -
  note by_attempts = bootstrap_by_attempts [where env = env and config = config and w = w]
  note bounds = bootstrap_bounds [where env = env and config = config and w = w]
  show ?thesis
    by (intro conjI by_attempts [THEN conjunct1] by_attempts [THEN conjunct2, THEN conjunct1]
        by_attempts [THEN conjunct2, THEN conjunct2] bounds [THEN conjunct1]
        bounds [THEN conjunct2, THEN conjunct1] bounds [THEN conjunct2, THEN conjunct2])
qed

lemma too_late_attempts:
  "\<forall>j<3. \<exists>e. attempt_outcome settings_too_late (service_world None sample_world) j = Raises e"
proof (intro allI impI)
  fix j :: nat
  assume "j < 3"
  then consider "j = 0" | "j = Suc 0" | "j = Suc (Suc 0)" by linarith
  then show "\<exists>e. attempt_outcome settings_too_late (service_world None sample_world) j = Raises e"
    by cases
       (simp_all add: attempt_outcome_def setupClient_def settings_too_late_def sample_env_def
          truthy_def Let_def service_world_def AcpService_constructor_def sample_world_def
          log_def emit_def retry_world_def)
qed

text \<open>
  Three starts. Without settings, every attempt fails. When the settings appear
  after the first attempt, the second attempt succeeds. When they appear too late,
  the three attempts fail and the start raises, although \<open>setupClient\<close> succeeds in
  a later world.
\<close>

theorem bootstrap_retries_witness:
  "fst (setupClient no_settings sample_world)
     = Raises (ErrorObj ''ACP_WALLET_PRIVATE_KEY is required'')
   \<and> attempts (events_since sample_world (snd (start no_settings None sample_world))) = 3
   \<and> waits (events_since sample_world (snd (start no_settings None sample_world))) = [1000, 2000]
   \<and> fst (start no_settings None sample_world)
       = Raises (ErrorObj
           ''Failed to register service virtuals-acp: ACP_WALLET_PRIVATE_KEY is required'')
   \<and> fst (start settings_late None sample_world) = Returns ()
   \<and> attempts (events_since sample_world (snd (start settings_late None sample_world))) = 2
   \<and> waits (events_since sample_world (snd (start settings_late None sample_world))) = [1000]
   \<and> fst (setupClient settings_too_late (sample_world\<lparr>trace := replicate 30 (Sleep 0)\<rparr>))
       = Returns ()
   \<and> attempts (events_since sample_world (snd (start settings_too_late None sample_world))) = 3
   \<and> waits (events_since sample_world (snd (start settings_too_late None sample_world)))
       = [1000, 2000]
   \<and> fst (start settings_too_late None sample_world)
       = Raises (ErrorObj
           ''Failed to register service virtuals-acp: ACP_WALLET_PRIVATE_KEY is required'')"
proof -
  have fails: "\<forall>u. \<exists>e. fst (setupClient no_settings u) = Raises e"
    by (simp add: setupClient_def no_settings_def sample_env_def truthy_def Let_def)
  have first: "fst (setupClient no_settings sample_world)
     = Raises (ErrorObj ''ACP_WALLET_PRIVATE_KEY is required'')"
    by (simp add: setupClient_def no_settings_def sample_env_def truthy_def Let_def)
  note all_fail = bootstrap_retries [where env = no_settings and config = None
      and w = sample_world, THEN conjunct2, THEN conjunct2, THEN conjunct2, THEN conjunct2,
      THEN conjunct1, THEN mp, OF fails]
  note too_late = bootstrap_retries [where env = settings_too_late and config = None
      and w = sample_world, THEN conjunct2, THEN conjunct1, THEN mp, OF too_late_attempts]
  have message: "fst (start no_settings None sample_world)
       = Raises (ErrorObj
           ''Failed to register service virtuals-acp: ACP_WALLET_PRIVATE_KEY is required'')"
    by (simp add: start_def setupClientWithRetry_def setupClientWithRetry_from.simps
        setupClient_def no_settings_def sample_env_def truthy_def Let_def ACP_SERVICE_NAME_def)
  have late: "fst (start settings_late None sample_world) = Returns ()
   \<and> attempts (events_since sample_world (snd (start settings_late None sample_world))) = 2
   \<and> waits (events_since sample_world (snd (start settings_late None sample_world))) = [1000]"
    by (simp add: start_def setupClientWithRetry_def setupClientWithRetry_from.simps
        setupClient_def settings_late_def sample_env_def truthy_def Let_def
        AcpService_constructor_def sample_world_def events_since_def log_def emit_def
        await_then_def call_def string_of_def)
  have recovers:
    "fst (setupClient settings_too_late (sample_world\<lparr>trace := replicate 30 (Sleep 0)\<rparr>))
       = Returns ()"
    by (simp add: setupClient_def settings_too_late_def sample_env_def truthy_def Let_def
        await_then_def call_def string_of_def)
  have too_late_message: "fst (start settings_too_late None sample_world)
       = Raises (ErrorObj
           ''Failed to register service virtuals-acp: ACP_WALLET_PRIVATE_KEY is required'')"
    by (simp add: start_def setupClientWithRetry_def setupClientWithRetry_from.simps
        setupClient_def settings_too_late_def sample_env_def truthy_def Let_def
        ACP_SERVICE_NAME_def AcpService_constructor_def sample_world_def log_def emit_def)
  show ?thesis
    using all_fail too_late first message late recovers too_late_message by simp
qed

end
